theory Spec2Isabelle
  imports Complex_Main "HOL-Library.AList"
begin

section \<open>Auth service (server/src/infrastructure/auth/service.py)\<close>

text \<open>
  The service holds the set of session tokens, the dict of QR tokens and the name of
  the current QR token. Python dicts are association lists read with \<^const>\<open>map_of\<close>,
  written with \<^const>\<open>AList.update\<close> and popped with \<^const>\<open>AList.delete\<close>.
  Timestamps (\<^verbatim>\<open>time.time()\<close>) are real numbers passed in by the caller, and the
  result of \<^verbatim>\<open>secrets.token_hex(16)\<close> is passed in as the argument \<open>fresh\<close>.
  The token file written by \<^verbatim>\<open>_save_tokens\<close> is the field \<open>token_file\<close>; writing it
  is taken to succeed.
\<close>

record QRToken =
  token :: string
  expires_at :: real
  used :: bool

record AuthService =
  tokens :: "string set"
  qr_tokens :: "(string \<times> QRToken) list"
  current_qr_token :: "string option"
  token_file :: "string set option"

definition DEFAULT_QR_TTL_SECONDS :: int where
  "DEFAULT_QR_TTL_SECONDS = 60"

text \<open>
  \<^verbatim>\<open>secrets.token_hex(16)\<close> returns 32 lower-case hexadecimal digits.
\<close>

definition is_token_hex :: "string \<Rightarrow> bool" where
  "is_token_hex t = (length t = 32 \<and> list_all (\<lambda>c. c \<in> set ''0123456789abcdef'') t)"

text \<open>
  \<^verbatim>\<open>__init__\<close> with \<^verbatim>\<open>_load_tokens\<close>: the argument is the token list read from the
  token file, \<open>None\<close> when the file is absent or cannot be read.
\<close>

definition new_AuthService :: "string set option \<Rightarrow> AuthService" where
  "new_AuthService file =
     \<lparr>tokens = (case file of None \<Rightarrow> {} | Some ts \<Rightarrow> ts),
      qr_tokens = [], current_qr_token = None, token_file = file\<rparr>"

definition save_tokens :: "AuthService \<Rightarrow> AuthService" where
  "save_tokens s = s\<lparr>token_file := Some (tokens s)\<rparr>"

definition issue_token :: "string \<Rightarrow> AuthService \<Rightarrow> string \<times> AuthService" where
  "issue_token fresh s = (fresh, save_tokens (s\<lparr>tokens := insert fresh (tokens s)\<rparr>))"

definition validate_token :: "AuthService \<Rightarrow> string option \<Rightarrow> bool" where
  "validate_token s tok = (case tok of None \<Rightarrow> False | Some t \<Rightarrow> t \<in> tokens s)"

definition revoke_token :: "string \<Rightarrow> AuthService \<Rightarrow> bool \<times> AuthService" where
  "revoke_token t s =
     (if t \<in> tokens s then (True, save_tokens (s\<lparr>tokens := tokens s - {t}\<rparr>))
      else (False, s))"

text \<open>
  \<^verbatim>\<open>if self._current_qr_token:\<close> is Python truthiness: the name is set and not empty.
\<close>

definition issue_qr_token ::
  "string \<Rightarrow> real \<Rightarrow> int option \<Rightarrow> AuthService \<Rightarrow> string \<times> AuthService" where
  "issue_qr_token fresh now ttl_seconds s =
     (let ttl = (case ttl_seconds of None \<Rightarrow> DEFAULT_QR_TTL_SECONDS | Some n \<Rightarrow> n);
          s1 = (case current_qr_token s of
                  None \<Rightarrow> s
                | Some c \<Rightarrow> if c \<noteq> [] then s\<lparr>qr_tokens := AList.delete c (qr_tokens s)\<rparr> else s);
          expires = now + real_of_int ttl
      in (fresh,
          s1\<lparr>qr_tokens :=
                AList.update fresh \<lparr>token = fresh, expires_at = expires, used = False\<rparr> (qr_tokens s1),
             current_qr_token := Some fresh\<rparr>))"

text \<open>
  \<^verbatim>\<open>exchange_qr_token\<close> returns \<^verbatim>\<open>None\<close> on every failure and logs which check
  failed; the model returns that reason on the left.
\<close>

datatype qr_failure = NotFound | AlreadyUsed | Expired

definition exchange_qr_token ::
  "string \<Rightarrow> real \<Rightarrow> string \<Rightarrow> AuthService \<Rightarrow> (qr_failure + string) \<times> AuthService" where
  "exchange_qr_token qr_token now fresh s =
     (case map_of (qr_tokens s) qr_token of
        None \<Rightarrow> (Inl NotFound, s)
      | Some qr_data \<Rightarrow>
          if used qr_data then (Inl AlreadyUsed, s)
          else if now > expires_at qr_data
          then (Inl Expired, s\<lparr>qr_tokens := AList.delete qr_token (qr_tokens s)\<rparr>)
          else
            (let s1 = s\<lparr>qr_tokens := AList.update qr_token (qr_data\<lparr>used := True\<rparr>) (qr_tokens s)\<rparr>;
                 s2 = s1\<lparr>qr_tokens := AList.delete qr_token (qr_tokens s1)\<rparr>;
                 (session_token, s3) = issue_token fresh s2
             in (Inr session_token, s3)))"

definition cleanup_expired_qr_tokens :: "real \<Rightarrow> AuthService \<Rightarrow> nat \<times> AuthService" where
  "cleanup_expired_qr_tokens now s =
     (let expired = map fst (filter (\<lambda>(t, data). now > expires_at data) (qr_tokens s))
      in (length expired, s\<lparr>qr_tokens := fold AList.delete expired (qr_tokens s)\<rparr>))"

text \<open>
  The states the service can be in: built by \<^verbatim>\<open>__init__\<close> and changed by its methods
  only, every random token being a \<^verbatim>\<open>token_hex(16)\<close> string.
\<close>

inductive reachable :: "AuthService \<Rightarrow> bool" where
  reach_init: "reachable (new_AuthService stored)"
| reach_issue_token:
    "reachable s \<Longrightarrow> is_token_hex fresh \<Longrightarrow> reachable (snd (issue_token fresh s))"
| reach_revoke_token:
    "reachable s \<Longrightarrow> reachable (snd (revoke_token t s))"
| reach_issue_qr_token:
    "reachable s \<Longrightarrow> is_token_hex fresh \<Longrightarrow> reachable (snd (issue_qr_token fresh now ttl s))"
| reach_exchange_qr_token:
    "reachable s \<Longrightarrow> is_token_hex fresh \<Longrightarrow> reachable (snd (exchange_qr_token t now fresh s))"
| reach_cleanup:
    "reachable s \<Longrightarrow> reachable (snd (cleanup_expired_qr_tokens now s))"

text \<open>
  What holds of the QR dict in every such state: it is empty, or holds exactly the
  current token, unused.
\<close>

definition qr_inv :: "AuthService \<Rightarrow> bool" where
  "qr_inv s =
     (case qr_tokens s of
        [] \<Rightarrow> True
      | (t, q) # rest \<Rightarrow>
          rest = [] \<and> current_qr_token s = Some t \<and> t \<noteq> [] \<and> \<not> used q)"

section \<open>JSON values and the protocol (server/src/presentation/websocket/protocol.py)\<close>

text \<open>
  The handler receives text and decodes it with \<^verbatim>\<open>json.loads\<close>. The decoded value is
  a \<open>json\<close>; Python's \<^verbatim>\<open>None\<close> is \<open>JNull\<close>, an \<^verbatim>\<open>int\<close> is \<open>JInt\<close>, a finite
  \<^verbatim>\<open>float\<close> is \<open>JFloat\<close> and a dict is the list of its items.
\<close>

datatype json =
    JNull
  | JBool bool
  | JInt int
  | JFloat real
  | JStr string
  | JArr "json list"
  | JObj "(string \<times> json) list"

text \<open>Python truthiness, as \<^verbatim>\<open>if not x\<close> and \<^verbatim>\<open>x or y\<close> read it.\<close>

fun truthy :: "json \<Rightarrow> bool" where
  "truthy JNull = False"
| "truthy (JBool b) = b"
| "truthy (JInt n) = (n \<noteq> 0)"
| "truthy (JFloat x) = (x \<noteq> 0)"
| "truthy (JStr s) = (s \<noteq> [])"
| "truthy (JArr xs) = (xs \<noteq> [])"
| "truthy (JObj kvs) = (kvs \<noteq> [])"

definition py_or :: "json \<Rightarrow> json \<Rightarrow> json" where
  "py_or a b = (if truthy a then a else b)"

text \<open>A value of type \<^verbatim>\<open>str | None\<close>.\<close>

fun json_of_str :: "string option \<Rightarrow> json" where
  "json_of_str None = JNull"
| "json_of_str (Some s) = JStr s"

text \<open>
  The exceptions the handler can meet. \<open>SendFailed\<close> is whatever \<^verbatim>\<open>send_json\<close> raises
  on a broken socket; \<open>ProgrammingError\<close> and \<open>OverflowError\<close> are sqlite3 refusing a
  query parameter; \<open>ValueError\<close> is a stored row that does not load.
\<close>

datatype exn =
    JSONDecodeError | AttributeError | KeyError | TypeError | ValueError
  | OverflowError | ProgrammingError | SendFailed

text \<open>\<^verbatim>\<open>str(e)\<close>: the text of an exception is represented by its name.\<close>

fun str_of :: "exn \<Rightarrow> string" where
  "str_of JSONDecodeError = ''JSONDecodeError''"
| "str_of AttributeError = ''AttributeError''"
| "str_of KeyError = ''KeyError''"
| "str_of TypeError = ''TypeError''"
| "str_of ValueError = ''ValueError''"
| "str_of OverflowError = ''OverflowError''"
| "str_of ProgrammingError = ''ProgrammingError''"
| "str_of SendFailed = ''SendFailed''"

text \<open>\<^verbatim>\<open>x.get(key, default)\<close>: only a dict has the method.\<close>

fun py_get :: "json \<Rightarrow> string \<Rightarrow> json \<Rightarrow> exn + json" where
  "py_get (JObj kvs) k d = Inr (case map_of kvs k of None \<Rightarrow> d | Some v \<Rightarrow> v)"
| "py_get _ k d = Inl AttributeError"

definition PROTOCOL_VERSION :: string where
  "PROTOCOL_VERSION = ''1.0''"

datatype MessageType =
    HELLO | WELCOME | AUTH_REQUIRED | AUTH_RESULT
  | BUTTON_PRESSED | GET_BUTTONS | ACTION_RESULT | BUTTONS_LIST | ERROR
  | GET_PROFILES | PROFILES_LIST | SWITCH_PROFILE | PROFILE_SWITCHED
  | PING | PONG | SYSTEM_STATS

fun value_of :: "MessageType \<Rightarrow> string" where
  "value_of HELLO = ''HELLO''"
| "value_of WELCOME = ''WELCOME''"
| "value_of AUTH_REQUIRED = ''AUTH_REQUIRED''"
| "value_of AUTH_RESULT = ''AUTH_RESULT''"
| "value_of BUTTON_PRESSED = ''BUTTON_PRESSED''"
| "value_of GET_BUTTONS = ''GET_BUTTONS''"
| "value_of ACTION_RESULT = ''ACTION_RESULT''"
| "value_of BUTTONS_LIST = ''BUTTONS_LIST''"
| "value_of ERROR = ''ERROR''"
| "value_of GET_PROFILES = ''GET_PROFILES''"
| "value_of PROFILES_LIST = ''PROFILES_LIST''"
| "value_of SWITCH_PROFILE = ''SWITCH_PROFILE''"
| "value_of PROFILE_SWITCHED = ''PROFILE_SWITCHED''"
| "value_of PING = ''PING''"
| "value_of PONG = ''PONG''"
| "value_of SYSTEM_STATS = ''SYSTEM_STATS''"

text \<open>\<^verbatim>\<open>create_message(msg_type, payload=None)\<close>, with \<^verbatim>\<open>payload or {}\<close>.\<close>

definition create_message :: "MessageType \<Rightarrow> json \<Rightarrow> json" where
  "create_message msg_type payload =
     JObj [(''type'', JStr (value_of msg_type)),
           (''payload'', if truthy payload then payload else JObj [])]"

section \<open>Buttons, profiles and their stores\<close>

text \<open>
  \<^verbatim>\<open>ActionType\<close> (server/src/core/models/action.py). \<^verbatim>\<open>ActionType(text)\<close> looks the
  member up by its value and raises \<^verbatim>\<open>ValueError\<close> when there is none.
\<close>

datatype ActionType =
    MEDIA_PLAY_PAUSE | MEDIA_NEXT | MEDIA_PREV | APP_LAUNCH | HOTKEY | OPEN_URL
  | OPEN_FOLDER | VOLUME_UP | VOLUME_DOWN | VOLUME_MUTE
  | SYSTEM_CPU | SYSTEM_RAM | SYSTEM_GPU

fun action_value :: "ActionType \<Rightarrow> string" where
  "action_value MEDIA_PLAY_PAUSE = ''MEDIA_PLAY_PAUSE''"
| "action_value MEDIA_NEXT = ''MEDIA_NEXT''"
| "action_value MEDIA_PREV = ''MEDIA_PREV''"
| "action_value APP_LAUNCH = ''APP_LAUNCH''"
| "action_value HOTKEY = ''HOTKEY''"
| "action_value OPEN_URL = ''OPEN_URL''"
| "action_value OPEN_FOLDER = ''OPEN_FOLDER''"
| "action_value VOLUME_UP = ''VOLUME_UP''"
| "action_value VOLUME_DOWN = ''VOLUME_DOWN''"
| "action_value VOLUME_MUTE = ''VOLUME_MUTE''"
| "action_value SYSTEM_CPU = ''SYSTEM_CPU''"
| "action_value SYSTEM_RAM = ''SYSTEM_RAM''"
| "action_value SYSTEM_GPU = ''SYSTEM_GPU''"

definition action_types :: "ActionType list" where
  "action_types =
     [MEDIA_PLAY_PAUSE, MEDIA_NEXT, MEDIA_PREV, APP_LAUNCH, HOTKEY, OPEN_URL, OPEN_FOLDER,
      VOLUME_UP, VOLUME_DOWN, VOLUME_MUTE, SYSTEM_CPU, SYSTEM_RAM, SYSTEM_GPU]"

definition ActionType_of :: "string \<Rightarrow> exn + ActionType" where
  "ActionType_of v =
     (case find (\<lambda>a. action_value a = v) action_types of
        None \<Rightarrow> Inl ValueError
      | Some a \<Rightarrow> Inr a)"

text \<open>
  \<^verbatim>\<open>Button\<close> and \<^verbatim>\<open>Profile\<close> (server/src/core/models) with their \<^verbatim>\<open>to_dict\<close>. The
  field \<^verbatim>\<open>id\<close> is \<open>id_of\<close> on a button and \<open>profile_id_of\<close> on a profile; the
  timestamps of a profile are their \<^verbatim>\<open>isoformat()\<close> texts.
\<close>

record Button =
  id_of :: string
  label :: string
  icon :: string
  action_type :: ActionType
  action_payload :: json
  background :: "string option"
  icon_color :: "string option"

definition button_to_dict :: "Button \<Rightarrow> json" where
  "button_to_dict b =
     JObj ([(''id'', JStr (id_of b)), (''label'', JStr (label b)), (''icon'', JStr (icon b)),
            (''actionType'', JStr (action_value (action_type b))),
            (''actionPayload'', action_payload b)]
           @ (case background b of None \<Rightarrow> [] | Some c \<Rightarrow> [(''background'', JStr c)])
           @ (case icon_color b of None \<Rightarrow> [] | Some c \<Rightarrow> [(''iconColor'', JStr c)]))"

record Profile =
  profile_id_of :: string
  name :: string
  created_at :: "string option"
  updated_at :: "string option"

definition profile_to_dict :: "Profile \<Rightarrow> json" where
  "profile_to_dict p =
     JObj ([(''id'', JStr (profile_id_of p)), (''name'', JStr (name p))]
           @ (case created_at p of None \<Rightarrow> [] | Some c \<Rightarrow> [(''createdAt'', JStr c)])
           @ (case updated_at p of None \<Rightarrow> [] | Some c \<Rightarrow> [(''updatedAt'', JStr c)]))"

subsection \<open>The SQLite repositories (server/src/infrastructure/persistence)\<close>

text \<open>
  The tables hold what was written to them, by this program or not. A button row
  carries its \<^verbatim>\<open>action_type\<close> as text and its \<^verbatim>\<open>action_payload\<close> as \<^verbatim>\<open>get_all\<close> decodes
  it (\<open>JNull\<close> when the column is empty or is not JSON). A timestamp column is empty,
  or a text \<^verbatim>\<open>datetime.fromisoformat\<close> reads (kept as the \<^verbatim>\<open>isoformat()\<close> of the
  result), or a text it rejects with \<^verbatim>\<open>ValueError\<close>. The database itself is taken to
  answer every query.
\<close>

record ButtonRow =
  row_id :: string
  row_profile_id :: string
  row_label :: string
  row_icon :: string
  row_action_type :: string
  row_action_payload :: json
  row_background :: "string option"
  row_icon_color :: "string option"

datatype timestamp_column = NoTimestamp | IsoTimestamp string | BadTimestamp

record ProfileRow =
  prow_id :: string
  prow_name :: string
  prow_created_at :: timestamp_column
  prow_updated_at :: timestamp_column

definition button_of_row :: "ButtonRow \<Rightarrow> exn + Button" where
  "button_of_row r =
     (case ActionType_of (row_action_type r) of
        Inl x \<Rightarrow> Inl x
      | Inr a \<Rightarrow>
          Inr \<lparr>id_of = row_id r, label = row_label r, icon = row_icon r, action_type = a,
               action_payload = row_action_payload r, background = row_background r,
               icon_color = row_icon_color r\<rparr>)"

fun read_timestamp :: "timestamp_column \<Rightarrow> exn + string option" where
  "read_timestamp NoTimestamp = Inr None"
| "read_timestamp (IsoTimestamp t) = Inr (Some t)"
| "read_timestamp BadTimestamp = Inl ValueError"

definition profile_of_row :: "ProfileRow \<Rightarrow> exn + Profile" where
  "profile_of_row r =
     (case read_timestamp (prow_created_at r) of
        Inl x \<Rightarrow> Inl x
      | Inr created \<Rightarrow>
          (case read_timestamp (prow_updated_at r) of
             Inl x \<Rightarrow> Inl x
           | Inr updated \<Rightarrow>
               Inr \<lparr>profile_id_of = prow_id r, name = prow_name r, created_at = created,
                    updated_at = updated\<rparr>))"

text \<open>The loop over \<^verbatim>\<open>cursor.fetchall()\<close>: the first row that does not load raises.\<close>

fun load_all :: "('a \<Rightarrow> exn + 'b) \<Rightarrow> 'a list \<Rightarrow> exn + 'b list" where
  "load_all f [] = Inr []"
| "load_all f (r # rs) =
     (case f r of
        Inl x \<Rightarrow> Inl x
      | Inr b \<Rightarrow> (case load_all f rs of Inl x \<Rightarrow> Inl x | Inr bs \<Rightarrow> Inr (b # bs)))"

text \<open>
  What the handler's collaborators answer during one call: the auth service, the
  profile table ordered by creation date, the button table ordered by
  \<^verbatim>\<open>order_index\<close>, the outcome of \<^verbatim>\<open>ExecuteActionUseCase.execute\<close>, the sockets on which
  \<^verbatim>\<open>send_json\<close> raises, the clock, the text SQLite gives a bound number when it
  compares it with a text column (\<open>sql_text\<close>), and Python's \<^verbatim>\<open>str()\<close> of a value that
  is not a string (\<open>py_str\<close>). A socket is named by a number (the object's identity).
\<close>

type_synonym ws = nat

record env =
  auth_service :: AuthService
  profile_rows :: "ProfileRow list"
  button_rows :: "ButtonRow list"
  execute_action :: "Button \<Rightarrow> json"
  send_fails :: "ws \<Rightarrow> bool"
  time_now :: real
  sql_text :: "json \<Rightarrow> string"
  py_str :: "json \<Rightarrow> string"

text \<open>
  A value bound to \<^verbatim>\<open>WHERE id = ?\<close>. sqlite3 binds a string as it is, \<^verbatim>\<open>None\<close> as
  NULL (equal to no id), a boolean as the integer 1 or 0, an integer within 64 bits
  and a float as numbers, which SQLite compares with the text column as their text; it
  raises \<^verbatim>\<open>OverflowError\<close> on a larger integer and \<^verbatim>\<open>ProgrammingError\<close> on a list or
  a dict.
\<close>

fun sql_parameter :: "env \<Rightarrow> json \<Rightarrow> exn + string option" where
  "sql_parameter e JNull = Inr None"
| "sql_parameter e (JStr s) = Inr (Some s)"
| "sql_parameter e (JBool b) = Inr (Some (sql_text e (JInt (if b then 1 else 0))))"
| "sql_parameter e (JInt n) =
     (if - (2 ^ 63) \<le> n \<and> n < 2 ^ 63 then Inr (Some (sql_text e (JInt n)))
      else Inl OverflowError)"
| "sql_parameter e (JFloat x) = Inr (Some (sql_text e (JFloat x)))"
| "sql_parameter e (JArr xs) = Inl ProgrammingError"
| "sql_parameter e (JObj kvs) = Inl ProgrammingError"

text \<open>A value inside an f-string.\<close>

fun py_format :: "env \<Rightarrow> json \<Rightarrow> string" where
  "py_format e (JStr s) = s"
| "py_format e v = py_str e v"

definition profile_get_all :: "env \<Rightarrow> exn + Profile list" where
  "profile_get_all e = load_all profile_of_row (profile_rows e)"

definition profile_get_by_id :: "env \<Rightarrow> json \<Rightarrow> exn + Profile option" where
  "profile_get_by_id e profile_id =
     (case sql_parameter e profile_id of
        Inl x \<Rightarrow> Inl x
      | Inr None \<Rightarrow> Inr None
      | Inr (Some key) \<Rightarrow>
          (case find (\<lambda>r. prow_id r = key) (profile_rows e) of
             None \<Rightarrow> Inr None
           | Some r \<Rightarrow>
               (case profile_of_row r of Inl x \<Rightarrow> Inl x | Inr p \<Rightarrow> Inr (Some p))))"

definition get_default_profile :: "env \<Rightarrow> exn + Profile option" where
  "get_default_profile e =
     (case profile_get_all e of
        Inl x \<Rightarrow> Inl x
      | Inr ps \<Rightarrow> Inr (case ps of [] \<Rightarrow> None | p # _ \<Rightarrow> Some p))"

definition button_get_all :: "env \<Rightarrow> json \<Rightarrow> exn + Button list" where
  "button_get_all e profile_id =
     (case sql_parameter e profile_id of
        Inl x \<Rightarrow> Inl x
      | Inr None \<Rightarrow> Inr []
      | Inr (Some key) \<Rightarrow>
          load_all button_of_row (filter (\<lambda>r. row_profile_id r = key) (button_rows e)))"

definition button_get_by_id :: "env \<Rightarrow> json \<Rightarrow> json \<Rightarrow> exn + Button option" where
  "button_get_by_id e button_id profile_id =
     (case sql_parameter e button_id of
        Inl x \<Rightarrow> Inl x
      | Inr bkey \<Rightarrow>
          (case sql_parameter e profile_id of
             Inl x \<Rightarrow> Inl x
           | Inr pkey \<Rightarrow>
               (case find (\<lambda>r. Some (row_id r) = bkey \<and> Some (row_profile_id r) = pkey)
                       (button_rows e) of
                  None \<Rightarrow> Inr None
                | Some r \<Rightarrow>
                    (case button_of_row r of Inl x \<Rightarrow> Inl x | Inr b \<Rightarrow> Inr (Some b)))))"

section \<open>The WebSocket handler (server/src/presentation/websocket/handler.py)\<close>

text \<open>
  The registry \<^verbatim>\<open>_connections\<close> is a dict in insertion order. The handler's state also
  records, in order, every message a socket accepted (\<open>sent\<close>) and every socket the
  handler closed (\<open>closed\<close>). Logging is left out. Each method runs to its end before
  the next starts; the interleavings at \<^verbatim>\<open>await\<close> are not modelled. The field
  \<open>active_profile_id\<close> holds whatever value the handler stored: \<open>JNull\<close> for
  \<^verbatim>\<open>None\<close>, a string, or the number a \<^verbatim>\<open>SWITCH_PROFILE\<close> message carried.
\<close>

record ConnectionInfo =
  websocket :: ws
  client_version :: json
  is_authenticated :: bool
  active_profile_id :: json
  connected_at :: real
  last_pong :: real

record WebSocketHandler =
  connections :: "(ws \<times> ConnectionInfo) list"
  sent :: "(ws \<times> json) list"
  closed :: "(ws \<times> string) list"

text \<open>The messages a socket accepted, in order.\<close>

definition received :: "WebSocketHandler \<Rightarrow> ws \<Rightarrow> json list" where
  "received h w = map snd (filter (\<lambda>(x, m). x = w) (sent h))"

definition PING_INTERVAL_SECONDS :: real where
  "PING_INTERVAL_SECONDS = 30"

definition PONG_TIMEOUT_SECONDS :: real where
  "PONG_TIMEOUT_SECONDS = 90"

type_synonym outcome = "(exn + unit) \<times> WebSocketHandler"

text \<open>Sequencing of two awaited calls: an exception of the first skips the second.\<close>

definition and_then :: "outcome \<Rightarrow> (WebSocketHandler \<Rightarrow> outcome) \<Rightarrow> outcome" where
  "and_then r f = (case r of (Inl e, h) \<Rightarrow> (Inl e, h) | (Inr u, h) \<Rightarrow> f h)"

definition send_json :: "env \<Rightarrow> ws \<Rightarrow> json \<Rightarrow> WebSocketHandler \<Rightarrow> outcome" where
  "send_json e w m h =
     (if send_fails e w then (Inl SendFailed, h)
      else (Inr (), h\<lparr>sent := sent h @ [(w, m)]\<rparr>))"

definition send_error :: "env \<Rightarrow> ws \<Rightarrow> string \<Rightarrow> WebSocketHandler \<Rightarrow> outcome" where
  "send_error e w message h =
     send_json e w (create_message ERROR (JObj [(''message'', JStr message)])) h"

definition close_connection :: "ws \<Rightarrow> string \<Rightarrow> WebSocketHandler \<Rightarrow> WebSocketHandler" where
  "close_connection w reason h =
     (if map_of (connections h) w = None then h
      else h\<lparr>connections := AList.delete w (connections h),
             closed := closed h @ [(w, reason)]\<rparr>)"

definition connect :: "env \<Rightarrow> ws \<Rightarrow> WebSocketHandler \<Rightarrow> WebSocketHandler" where
  "connect e w h =
     h\<lparr>connections :=
         AList.update w
           \<lparr>websocket = w, client_version = JNull, is_authenticated = False,
            active_profile_id = JNull, connected_at = time_now e, last_pong = time_now e\<rparr>
           (connections h)\<rparr>"

definition disconnect :: "ws \<Rightarrow> WebSocketHandler \<Rightarrow> WebSocketHandler" where
  "disconnect w h =
     (if map_of (connections h) w \<noteq> None
      then h\<lparr>connections := AList.delete w (connections h)\<rparr> else h)"

definition handler_is_authenticated :: "WebSocketHandler \<Rightarrow> ws \<Rightarrow> bool" where
  "handler_is_authenticated h w =
     (case map_of (connections h) w of None \<Rightarrow> False | Some info \<Rightarrow> is_authenticated info)"

text \<open>
  \<^verbatim>\<open>{"buttons": [b.to_dict() for b in get_all(profile_id)]}\<close>, which raises when a row of
  the profile does not load.
\<close>

definition buttons_payload :: "env \<Rightarrow> json \<Rightarrow> exn + json" where
  "buttons_payload e profile_id =
     (case button_get_all e profile_id of
        Inl x \<Rightarrow> Inl x
      | Inr buttons \<Rightarrow> Inr (JObj [(''buttons'', JArr (map button_to_dict buttons))]))"

definition send_buttons_list :: "env \<Rightarrow> ws \<Rightarrow> WebSocketHandler \<Rightarrow> outcome" where
  "send_buttons_list e w h =
     (case map_of (connections h) w of
        None \<Rightarrow> (Inl KeyError, h)
      | Some info \<Rightarrow>
          if \<not> truthy (active_profile_id info)
          then send_json e w (create_message BUTTONS_LIST (JObj [(''buttons'', JArr [])])) h
          else
            (case buttons_payload e (active_profile_id info) of
               Inl x \<Rightarrow> (Inl x, h)
             | Inr payload \<Rightarrow> send_json e w (create_message BUTTONS_LIST payload) h))"

definition profiles_payload :: "env \<Rightarrow> exn + json" where
  "profiles_payload e =
     (case profile_get_all e of
        Inl x \<Rightarrow> Inl x
      | Inr ps \<Rightarrow> Inr (JObj [(''profiles'', JArr (map profile_to_dict ps))]))"

definition send_profiles_list :: "env \<Rightarrow> ws \<Rightarrow> WebSocketHandler \<Rightarrow> outcome" where
  "send_profiles_list e w h =
     (case profiles_payload e of
        Inl x \<Rightarrow> (Inl x, h)
      | Inr payload \<Rightarrow> send_json e w (create_message PROFILES_LIST payload) h)"

text \<open>
  \<^verbatim>\<open>validate_token(token)\<close> on the token of a handshake payload, which can be any JSON
  value: \<^verbatim>\<open>token in self._tokens\<close> raises \<^verbatim>\<open>TypeError\<close> on a list or a dict
  (unhashable), and a number or a boolean is never equal to a stored string.
\<close>

fun validate_payload_token :: "AuthService \<Rightarrow> json \<Rightarrow> exn + bool" where
  "validate_payload_token a JNull = Inr (validate_token a None)"
| "validate_payload_token a (JStr t) = Inr (validate_token a (Some t))"
| "validate_payload_token a (JBool b) = Inr False"
| "validate_payload_token a (JInt n) = Inr False"
| "validate_payload_token a (JFloat x) = Inr False"
| "validate_payload_token a (JArr xs) = Inl TypeError"
| "validate_payload_token a (JObj kvs) = Inl TypeError"

text \<open>The three replies of a successful handshake.\<close>

definition hello_replies :: "env \<Rightarrow> ws \<Rightarrow> WebSocketHandler \<Rightarrow> outcome" where
  "hello_replies e w h =
     and_then
       (send_json e w (create_message WELCOME (JObj [(''version'', JStr PROTOCOL_VERSION)])) h)
       (\<lambda>h'. and_then (send_profiles_list e w h') (send_buttons_list e w))"

definition handle_hello :: "env \<Rightarrow> ws \<Rightarrow> json \<Rightarrow> WebSocketHandler \<Rightarrow> outcome" where
  "handle_hello e w payload h =
     (case py_get payload ''version'' (JStr ''unknown'') of
        Inl x \<Rightarrow> (Inl x, h)
      | Inr version \<Rightarrow>
     (case py_get payload ''token'' JNull of
        Inl x \<Rightarrow> (Inl x, h)
      | Inr tok \<Rightarrow>
     (let h1 = (if map_of (connections h) w \<noteq> None
                then h\<lparr>connections :=
                        AList.map_entry w (\<lambda>i. i\<lparr>client_version := version\<rparr>) (connections h)\<rparr>
                else h)
      in
     (case validate_payload_token (auth_service e) tok of
        Inl x \<Rightarrow> (Inl x, h1)
      | Inr False \<Rightarrow> send_json e w (create_message AUTH_REQUIRED JNull) h1
      | Inr True \<Rightarrow>
     (case map_of (connections h1) w of
        None \<Rightarrow> (Inl KeyError, h1)
      | Some info \<Rightarrow>
     (let h2 = h1\<lparr>connections :=
                   AList.map_entry w (\<lambda>i. i\<lparr>is_authenticated := True\<rparr>) (connections h1)\<rparr>
      in
        if \<not> truthy (active_profile_id info)
        then
          (case get_default_profile e of
             Inl x \<Rightarrow> (Inl x, h2)
           | Inr None \<Rightarrow> hello_replies e w h2
           | Inr (Some default_profile) \<Rightarrow>
               hello_replies e w
                 (h2\<lparr>connections :=
                       AList.map_entry w
                         (\<lambda>i. i\<lparr>active_profile_id := JStr (profile_id_of default_profile)\<rparr>)
                         (connections h2)\<rparr>))
        else hello_replies e w h2))))))"

definition handle_pong :: "env \<Rightarrow> ws \<Rightarrow> WebSocketHandler \<Rightarrow> WebSocketHandler" where
  "handle_pong e w h =
     (if map_of (connections h) w \<noteq> None
      then h\<lparr>connections :=
              AList.map_entry w (\<lambda>i. i\<lparr>last_pong := time_now e\<rparr>) (connections h)\<rparr>
      else h)"

definition handle_button_pressed :: "env \<Rightarrow> ws \<Rightarrow> json \<Rightarrow> WebSocketHandler \<Rightarrow> outcome" where
  "handle_button_pressed e w payload h =
     (if \<not> handler_is_authenticated h w then send_error e w ''Not authenticated'' h
      else
     (case py_get payload ''buttonId'' JNull of
        Inl x \<Rightarrow> (Inl x, h)
      | Inr button_id \<Rightarrow>
     (case map_of (connections h) w of
        None \<Rightarrow> (Inl KeyError, h)
      | Some info \<Rightarrow>
          if \<not> truthy button_id then send_error e w ''Missing buttonId'' h
          else if \<not> truthy (active_profile_id info) then send_error e w ''No active profile'' h
          else
            (case button_get_by_id e button_id (active_profile_id info) of
               Inl x \<Rightarrow> (Inl x, h)
             | Inr None \<Rightarrow> send_error e w (''Button not found: '' @ py_format e button_id) h
             | Inr (Some button) \<Rightarrow>
                 send_json e w (create_message ACTION_RESULT (execute_action e button)) h))))"

definition handle_get_buttons :: "env \<Rightarrow> ws \<Rightarrow> WebSocketHandler \<Rightarrow> outcome" where
  "handle_get_buttons e w h =
     (if \<not> handler_is_authenticated h w then send_error e w ''Not authenticated'' h
      else send_buttons_list e w h)"

definition handle_get_profiles :: "env \<Rightarrow> ws \<Rightarrow> WebSocketHandler \<Rightarrow> outcome" where
  "handle_get_profiles e w h =
     (if \<not> handler_is_authenticated h w then send_error e w ''Not authenticated'' h
      else send_profiles_list e w h)"

definition handle_switch_profile :: "env \<Rightarrow> ws \<Rightarrow> json \<Rightarrow> WebSocketHandler \<Rightarrow> outcome" where
  "handle_switch_profile e w payload h =
     (if \<not> handler_is_authenticated h w then send_error e w ''Not authenticated'' h
      else
     (case py_get payload ''profileId'' JNull of
        Inl x \<Rightarrow> (Inl x, h)
      | Inr profile_id \<Rightarrow>
          if \<not> truthy profile_id then send_error e w ''Missing profileId'' h
          else
            (case profile_get_by_id e profile_id of
               Inl x \<Rightarrow> (Inl x, h)
             | Inr None \<Rightarrow> send_error e w (''Profile not found: '' @ py_format e profile_id) h
             | Inr (Some profile) \<Rightarrow>
                 (let h1 = h\<lparr>connections :=
                               AList.map_entry w (\<lambda>i. i\<lparr>active_profile_id := profile_id\<rparr>)
                                 (connections h)\<rparr>
                  in and_then (send_buttons_list e w h1)
                       (send_json e w
                          (create_message PROFILE_SWITCHED (JObj [(''profileId'', profile_id)])))))))"

text \<open>
  \<^verbatim>\<open>handle_message(websocket, data)\<close>: \<open>data\<close> is the result of \<^verbatim>\<open>json.loads\<close>, \<open>None\<close>
  when it raises \<^verbatim>\<open>JSONDecodeError\<close>. An exception of the dispatch is answered with an
  error message; an exception of that send leaves the method.
\<close>

definition dispatch :: "env \<Rightarrow> ws \<Rightarrow> json option \<Rightarrow> WebSocketHandler \<Rightarrow> outcome" where
  "dispatch e w data h =
     (case data of
        None \<Rightarrow> (Inl JSONDecodeError, h)
      | Some message \<Rightarrow>
     (case py_get message ''type'' JNull of
        Inl x \<Rightarrow> (Inl x, h)
      | Inr msg_type \<Rightarrow>
     (case py_get message ''payload'' (JObj []) of
        Inl x \<Rightarrow> (Inl x, h)
      | Inr payload \<Rightarrow>
          if msg_type = JStr (value_of HELLO) then handle_hello e w payload h
          else if msg_type = JStr (value_of BUTTON_PRESSED) then handle_button_pressed e w payload h
          else if msg_type = JStr (value_of GET_BUTTONS) then handle_get_buttons e w h
          else if msg_type = JStr (value_of GET_PROFILES) then handle_get_profiles e w h
          else if msg_type = JStr (value_of SWITCH_PROFILE) then handle_switch_profile e w payload h
          else if msg_type = JStr (value_of PONG) then (Inr (), handle_pong e w h)
          else (Inr (), h))))"

definition handle_message :: "env \<Rightarrow> ws \<Rightarrow> json option \<Rightarrow> WebSocketHandler \<Rightarrow> outcome" where
  "handle_message e w data h =
     (case dispatch e w data h of
        (Inl JSONDecodeError, h') \<Rightarrow> send_error e w ''Invalid JSON'' h'
      | (Inl x, h') \<Rightarrow> send_error e w (str_of x) h'
      | (Inr u, h') \<Rightarrow> (Inr u, h'))"

subsection \<open>Broadcasts\<close>

text \<open>
  Each broadcast walks \<^verbatim>\<open>list(self._connections.items())\<close>, a snapshot of the registry
  taken before the loop; \<^verbatim>\<open>try: ... except Exception: pass\<close> keeps the state the
  failed call left. What a broadcast does outside a \<^verbatim>\<open>try\<close> can raise out of it.
\<close>

fun buttons_update_loop ::
  "env \<Rightarrow> string option \<Rightarrow> (ws \<times> ConnectionInfo) list \<Rightarrow> WebSocketHandler \<Rightarrow> WebSocketHandler" where
  "buttons_update_loop e profile_id [] h = h"
| "buttons_update_loop e profile_id ((w, info) # rest) h =
     (if \<not> is_authenticated info then buttons_update_loop e profile_id rest h
      else
        (let target_profile_id = py_or (json_of_str profile_id) (active_profile_id info)
         in if \<not> truthy target_profile_id then buttons_update_loop e profile_id rest h
            else buttons_update_loop e profile_id rest
                   (case buttons_payload e target_profile_id of
                      Inl x \<Rightarrow> h
                    | Inr payload \<Rightarrow>
                        snd (send_json e w (create_message BUTTONS_LIST payload) h))))"

definition broadcast_buttons_update :: "env \<Rightarrow> string option \<Rightarrow> WebSocketHandler \<Rightarrow> WebSocketHandler" where
  "broadcast_buttons_update e profile_id h =
     (if connections h = [] then h
      else buttons_update_loop e profile_id (connections h) h)"

fun send_to_authenticated ::
  "env \<Rightarrow> json \<Rightarrow> (ws \<times> ConnectionInfo) list \<Rightarrow> WebSocketHandler \<Rightarrow> WebSocketHandler" where
  "send_to_authenticated e message [] h = h"
| "send_to_authenticated e message ((w, info) # rest) h =
     (if is_authenticated info
      then send_to_authenticated e message rest (snd (send_json e w message h))
      else send_to_authenticated e message rest h)"

definition broadcast_profiles_update :: "env \<Rightarrow> WebSocketHandler \<Rightarrow> outcome" where
  "broadcast_profiles_update e h =
     (if connections h = [] then (Inr (), h)
      else case profiles_payload e of
             Inl x \<Rightarrow> (Inl x, h)
           | Inr payload \<Rightarrow>
               (Inr (), send_to_authenticated e (create_message PROFILES_LIST payload)
                          (connections h) h))"

fun profile_switch_loop ::
  "env \<Rightarrow> string \<Rightarrow> (ws \<times> ConnectionInfo) list \<Rightarrow> WebSocketHandler \<Rightarrow> WebSocketHandler" where
  "profile_switch_loop e profile_id [] h = h"
| "profile_switch_loop e profile_id ((w, info) # rest) h =
     (if is_authenticated info
      then
        (let h1 = h\<lparr>connections :=
                      AList.map_entry w (\<lambda>i. i\<lparr>active_profile_id := JStr profile_id\<rparr>)
                        (connections h)\<rparr>
         in profile_switch_loop e profile_id rest
              (snd (and_then
                      (send_json e w
                         (create_message PROFILE_SWITCHED (JObj [(''profileId'', JStr profile_id)])) h1)
                      (\<lambda>h2. case buttons_payload e (JStr profile_id) of
                               Inl x \<Rightarrow> (Inl x, h2)
                             | Inr payload \<Rightarrow>
                                 send_json e w (create_message BUTTONS_LIST payload) h2))))
      else profile_switch_loop e profile_id rest h)"

definition broadcast_profile_switch :: "env \<Rightarrow> string \<Rightarrow> WebSocketHandler \<Rightarrow> outcome" where
  "broadcast_profile_switch e profile_id h =
     (if connections h = [] then (Inr (), h)
      else case profile_get_by_id e (JStr profile_id) of
             Inl x \<Rightarrow> (Inl x, h)
           | Inr None \<Rightarrow> (Inr (), h)
           | Inr (Some profile) \<Rightarrow>
               (Inr (), profile_switch_loop e profile_id (connections h) h))"

subsection \<open>Heartbeat and statistics\<close>

record SystemStats =
  cpu_percent :: real
  ram_percent :: real
  gpu_percent :: "real option"

definition broadcast_stats :: "env \<Rightarrow> SystemStats \<Rightarrow> WebSocketHandler \<Rightarrow> WebSocketHandler" where
  "broadcast_stats e stats h =
     (if connections h = [] then h
      else send_to_authenticated e
             (create_message SYSTEM_STATS
                (JObj [(''cpu'', JFloat (cpu_percent stats)), (''ram'', JFloat (ram_percent stats)),
                       (''gpu'', case gpu_percent stats of None \<Rightarrow> JNull | Some g \<Rightarrow> JFloat g)]))
             (connections h) h)"

fun ping_loop :: "env \<Rightarrow> ws list \<Rightarrow> WebSocketHandler \<Rightarrow> WebSocketHandler" where
  "ping_loop e [] h = h"
| "ping_loop e (w # rest) h =
     (case send_json e w (create_message PING JNull) h of
        (Inl x, h') \<Rightarrow> ping_loop e rest (close_connection w ''Send failed'' h')
      | (Inr u, h') \<Rightarrow> ping_loop e rest h')"

definition send_ping_to_all :: "env \<Rightarrow> WebSocketHandler \<Rightarrow> WebSocketHandler" where
  "send_ping_to_all e h =
     (if connections h = [] then h else ping_loop e (map fst (connections h)) h)"

fun stale_loop :: "real \<Rightarrow> (ws \<times> ConnectionInfo) list \<Rightarrow> WebSocketHandler \<Rightarrow> WebSocketHandler" where
  "stale_loop now [] h = h"
| "stale_loop now ((w, info) # rest) h =
     (if now - last_pong info > PONG_TIMEOUT_SECONDS
      then stale_loop now rest (close_connection w ''Heartbeat timeout'' h)
      else stale_loop now rest h)"

definition cleanup_stale_connections :: "env \<Rightarrow> WebSocketHandler \<Rightarrow> WebSocketHandler" where
  "cleanup_stale_connections e h = stale_loop (time_now e) (connections h) h"

subsection \<open>Sequences of handler operations\<close>

datatype operation =
    Connect ws
  | Disconnect ws
  | HandleMessage ws "json option"
  | BroadcastButtonsUpdate "string option"
  | BroadcastProfilesUpdate
  | BroadcastProfileSwitch string
  | BroadcastStats SystemStats
  | SendPingToAll
  | CleanupStaleConnections

text \<open>The state an operation leaves, whether it returned or raised.\<close>

fun apply_operation :: "env \<Rightarrow> operation \<Rightarrow> WebSocketHandler \<Rightarrow> WebSocketHandler" where
  "apply_operation e (Connect w) h = connect e w h"
| "apply_operation e (Disconnect w) h = disconnect w h"
| "apply_operation e (HandleMessage w data) h = snd (handle_message e w data h)"
| "apply_operation e (BroadcastButtonsUpdate profile_id) h = broadcast_buttons_update e profile_id h"
| "apply_operation e BroadcastProfilesUpdate h = snd (broadcast_profiles_update e h)"
| "apply_operation e (BroadcastProfileSwitch profile_id) h = snd (broadcast_profile_switch e profile_id h)"
| "apply_operation e (BroadcastStats stats) h = broadcast_stats e stats h"
| "apply_operation e SendPingToAll h = send_ping_to_all e h"
| "apply_operation e CleanupStaleConnections h = cleanup_stale_connections e h"

text \<open>
  A run: each operation with the answers of the environment at that moment (tokens,
  tables, broken sockets and clock may differ from one step to the next).
\<close>

fun run :: "(env \<times> operation) list \<Rightarrow> WebSocketHandler \<Rightarrow> WebSocketHandler" where
  "run [] h = h"
| "run ((e, operation) # rest) h = run rest (apply_operation e operation h)"

text \<open>
  What a step may do to the entry of one socket \<open>w\<close>: drop it, or keep it without
  withdrawing its authentication; it never creates the entry.
\<close>

definition keeps :: "ws \<Rightarrow> (ws \<times> ConnectionInfo) list \<Rightarrow> (ws \<times> ConnectionInfo) list \<Rightarrow> bool" where
  "keeps w cs cs' =
     (case map_of cs' w of
        None \<Rightarrow> True
      | Some i' \<Rightarrow> (case map_of cs w of None \<Rightarrow> False | Some i \<Rightarrow> is_authenticated i \<longrightarrow> is_authenticated i'))"

section \<open>Example states\<close>

text \<open>Three random tokens, and a service that has just issued the first as a QR token
  at time 0 with the default lifetime.\<close>

definition example_qr :: string where
  "example_qr = ''0123456789abcdef0123456789abcdef''"

definition example_qr2 :: string where
  "example_qr2 = ''fedcba9876543210fedcba9876543210''"

definition example_session :: string where
  "example_session = ''00112233445566778899aabbccddeeff''"

definition example_auth :: AuthService where
  "example_auth = snd (issue_qr_token example_qr 0 None (new_AuthService None))"

text \<open>A store with two profiles and one button in each, as \<^verbatim>\<open>create\<close> and \<^verbatim>\<open>save\<close>
  write them, and the objects the repositories load from it.\<close>

definition profile_row_A :: ProfileRow where
  "profile_row_A =
     \<lparr>prow_id = ''A'', prow_name = ''Work'',
      prow_created_at = IsoTimestamp ''2024-01-01T10:00:00'',
      prow_updated_at = IsoTimestamp ''2024-01-01T10:00:00''\<rparr>"

definition profile_row_B :: ProfileRow where
  "profile_row_B =
     \<lparr>prow_id = ''B'', prow_name = ''Games'',
      prow_created_at = IsoTimestamp ''2024-01-02T10:00:00'',
      prow_updated_at = IsoTimestamp ''2024-01-02T10:00:00''\<rparr>"

definition profile_A :: Profile where
  "profile_A =
     \<lparr>profile_id_of = ''A'', name = ''Work'', created_at = Some ''2024-01-01T10:00:00'',
      updated_at = Some ''2024-01-01T10:00:00''\<rparr>"

definition profile_B :: Profile where
  "profile_B =
     \<lparr>profile_id_of = ''B'', name = ''Games'', created_at = Some ''2024-01-02T10:00:00'',
      updated_at = Some ''2024-01-02T10:00:00''\<rparr>"

definition button_row_play :: ButtonRow where
  "button_row_play =
     \<lparr>row_id = ''play'', row_profile_id = ''A'', row_label = ''Play'', row_icon = ''play.svg'',
      row_action_type = ''MEDIA_PLAY_PAUSE'', row_action_payload = JNull,
      row_background = None, row_icon_color = None\<rparr>"

definition button_row_web :: ButtonRow where
  "button_row_web =
     \<lparr>row_id = ''web'', row_profile_id = ''B'', row_label = ''Web'', row_icon = ''web.svg'',
      row_action_type = ''OPEN_URL'',
      row_action_payload = JObj [(''url'', JStr ''http://localhost'')],
      row_background = None, row_icon_color = None\<rparr>"

definition button_play :: Button where
  "button_play =
     \<lparr>id_of = ''play'', label = ''Play'', icon = ''play.svg'', action_type = MEDIA_PLAY_PAUSE,
      action_payload = JNull, background = None, icon_color = None\<rparr>"

definition button_web :: Button where
  "button_web =
     \<lparr>id_of = ''web'', label = ''Web'', icon = ''web.svg'', action_type = OPEN_URL,
      action_payload = JObj [(''url'', JStr ''http://localhost'')], background = None,
      icon_color = None\<rparr>"

text \<open>An environment on that store in which every send succeeds (no number is bound or
  printed in the examples), and the same with the row of the first button holding an
  \<^verbatim>\<open>action_type\<close> that is no \<^verbatim>\<open>ActionType\<close> value.\<close>

definition example_env :: env where
  "example_env =
     \<lparr>auth_service =
        \<lparr>tokens = {example_session}, qr_tokens = [], current_qr_token = None,
         token_file = Some {example_session}\<rparr>,
      profile_rows = [profile_row_A, profile_row_B],
      button_rows = [button_row_play, button_row_web],
      execute_action =
        (\<lambda>b. JObj [(''buttonId'', JStr (id_of b)), (''status'', JStr ''success''),
                   (''message'', JStr ''Action executed'')]),
      send_fails = (\<lambda>w. False),
      time_now = 100,
      sql_text = (\<lambda>v. ''0''),
      py_str = (\<lambda>v. ''0'')\<rparr>"

definition example_env_bad_row :: env where
  "example_env_bad_row =
     example_env\<lparr>button_rows := [button_row_play\<lparr>row_action_type := ''media''\<rparr>, button_row_web]\<rparr>"

text \<open>Three registries: two authenticated connections on the profiles \<open>A\<close> and \<open>B\<close>;
  these two and an unauthenticated third; one connection just accepted.\<close>

definition conn_on_A :: ConnectionInfo where
  "conn_on_A =
     \<lparr>websocket = 1, client_version = JStr ''1.0'', is_authenticated = True,
      active_profile_id = JStr ''A'', connected_at = 0, last_pong = 50\<rparr>"

definition conn_on_B :: ConnectionInfo where
  "conn_on_B =
     \<lparr>websocket = 2, client_version = JStr ''1.0'', is_authenticated = True,
      active_profile_id = JStr ''B'', connected_at = 0, last_pong = 50\<rparr>"

definition conn_fresh :: ConnectionInfo where
  "conn_fresh =
     \<lparr>websocket = 3, client_version = JNull, is_authenticated = False,
      active_profile_id = JNull, connected_at = 0, last_pong = 0\<rparr>"

definition example_two :: WebSocketHandler where
  "example_two = \<lparr>connections = [(1, conn_on_A), (2, conn_on_B)], sent = [], closed = []\<rparr>"

definition example_three :: WebSocketHandler where
  "example_three =
     \<lparr>connections = [(1, conn_on_A), (2, conn_on_B), (3, conn_fresh)], sent = [], closed = []\<rparr>"

definition example_fresh :: WebSocketHandler where
  "example_fresh = \<lparr>connections = [(3, conn_fresh)], sent = [], closed = []\<rparr>"

text \<open>A run on the first registry: a query, a global switch, a disconnect of the
  other socket, a ping round and a stale sweep.\<close>

definition example_run :: "(env \<times> operation) list" where
  "example_run =
     [(example_env, HandleMessage 1 (Some (JObj [(''type'', JStr ''GET_BUTTONS'')]))),
      (example_env, BroadcastProfileSwitch ''B''),
      (example_env, Disconnect 2),
      (example_env, SendPingToAll),
      (example_env, CleanupStaleConnections)]"

section \<open>Properties of the auth service\<close>

lemma is_token_hex_nonempty: "is_token_hex t \<Longrightarrow> t \<noteq> []"
  by (auto simp: is_token_hex_def)


lemma example_tokens_hex:
  "is_token_hex example_qr" "is_token_hex example_qr2" "is_token_hex example_session"
  by (simp_all add: is_token_hex_def example_qr_def example_qr2_def example_session_def)

lemma example_qr_distinct: "example_qr2 \<noteq> example_qr"
  by (simp add: example_qr_def example_qr2_def)

lemma example_auth_reachable: "reachable example_auth"
  unfolding example_auth_def
  by (rule reach_issue_qr_token [OF reach_init example_tokens_hex(1)])

lemma example_auth_state:
  "example_auth =
     \<lparr>tokens = {}, qr_tokens = [(example_qr, \<lparr>token = example_qr, expires_at = 60, used = False\<rparr>)],
      current_qr_token = Some example_qr, token_file = None\<rparr>"
  by (simp add: example_auth_def issue_qr_token_def new_AuthService_def DEFAULT_QR_TTL_SECONDS_def)

subsection \<open>The QR dict holds at most the current token\<close>

lemma qr_inv_cases [consumes 1, case_names Empty Single]:
  "qr_inv s \<Longrightarrow>
   (qr_tokens s = [] \<Longrightarrow> P) \<Longrightarrow>
   (\<And>t q. qr_tokens s = [(t, q)] \<Longrightarrow> current_qr_token s = Some t \<Longrightarrow> t \<noteq> [] \<Longrightarrow> \<not> used q \<Longrightarrow> P)
   \<Longrightarrow> P"
  by (auto simp: qr_inv_def split: list.splits)

lemma qr_inv_issue_token: "qr_inv s \<Longrightarrow> qr_inv (snd (issue_token fresh s))"
  by (auto simp: qr_inv_def issue_token_def save_tokens_def split: list.splits)

lemma qr_inv_revoke_token: "qr_inv s \<Longrightarrow> qr_inv (snd (revoke_token t s))"
  by (auto simp: qr_inv_def revoke_token_def save_tokens_def split: list.splits)

lemma qr_inv_issue_qr_token:
  assumes "qr_inv s" and "is_token_hex fresh"
  shows "qr_inv (snd (issue_qr_token fresh now ttl s))"
  using assms(1)
proof (cases rule: qr_inv_cases)
  case Empty
  then show ?thesis
    using is_token_hex_nonempty [OF assms(2)]
    by (simp add: qr_inv_def issue_qr_token_def Let_def split: option.splits)
next
  case (Single t q)
  then show ?thesis
    using is_token_hex_nonempty [OF assms(2)]
    by (simp add: qr_inv_def issue_qr_token_def Let_def)
qed

lemma qr_inv_exchange_qr_token:
  assumes "qr_inv s"
  shows "qr_inv (snd (exchange_qr_token t now fresh s))"
  using assms
proof (cases rule: qr_inv_cases)
  case Empty
  then show ?thesis
    using assms by (simp add: exchange_qr_token_def)
next
  case (Single t' q)
  then show ?thesis
    using assms
    by (simp add: qr_inv_def exchange_qr_token_def Let_def issue_token_def save_tokens_def)
qed

lemma qr_inv_cleanup:
  assumes "qr_inv s"
  shows "qr_inv (snd (cleanup_expired_qr_tokens now s))"
  using assms
proof (cases rule: qr_inv_cases)
  case Empty
  then show ?thesis
    using assms by (simp add: cleanup_expired_qr_tokens_def qr_inv_def)
next
  case (Single t' q)
  then show ?thesis
    by (simp add: qr_inv_def cleanup_expired_qr_tokens_def Let_def)
qed

lemma reachable_qr_inv: "reachable s \<Longrightarrow> qr_inv s"
proof (induction rule: reachable.induct)
  case (reach_init stored)
  show ?case by (simp add: qr_inv_def new_AuthService_def)
qed (simp_all add: qr_inv_issue_token qr_inv_revoke_token qr_inv_issue_qr_token
       qr_inv_exchange_qr_token qr_inv_cleanup)

lemma outstanding_is_current:
  assumes "reachable s" and "map_of (qr_tokens s) t = Some q"
  shows "current_qr_token s = Some t \<and> t \<noteq> [] \<and> \<not> used q"
  using reachable_qr_inv [OF assms(1)] assms(2)
  by (cases rule: qr_inv_cases) (auto split: if_splits)

text \<open>
  An entry is removed in the same call that marks it used, so no reachable state holds
  a used entry and no exchange reports \<open>AlreadyUsed\<close>.
\<close>

lemma exchange_never_AlreadyUsed:
  assumes "reachable s"
  shows "fst (exchange_qr_token t now fresh s) \<noteq> Inl AlreadyUsed"
proof (cases "map_of (qr_tokens s) t")
  case None
  then show ?thesis by (simp add: exchange_qr_token_def)
next
  case (Some q)
  have "\<not> used q"
    using outstanding_is_current [OF assms Some] by simp
  then show ?thesis
    using Some by (simp add: exchange_qr_token_def Let_def issue_token_def)
qed

subsection \<open>Session tokens and QR tokens\<close>

text \<open>
  C8. A session token returned by \<^verbatim>\<open>issue_token\<close> validates at once and can then be
  revoked; \<^verbatim>\<open>revoke_token\<close> answers whether the token was stored, and in the state it
  leaves the token does not validate.
\<close>

theorem session_token_issue_validate_revoke:
  "validate_token (snd (issue_token fresh s)) (Some (fst (issue_token fresh s))) = True \<and>
   fst (revoke_token (fst (issue_token fresh s)) (snd (issue_token fresh s))) = True \<and>
   fst (revoke_token t s') = (t \<in> tokens s') \<and>
   validate_token (snd (revoke_token t s')) (Some t) = False"
  by (simp add: validate_token_def issue_token_def revoke_token_def save_tokens_def)

theorem session_token_issue_validate_revoke_witness:
  "validate_token (snd (issue_token example_session example_auth)) (Some example_session) = True \<and>
   fst (revoke_token example_session (snd (issue_token example_session example_auth))) = True \<and>
   fst (revoke_token example_session example_auth) = False \<and>
   validate_token (snd (revoke_token example_session (snd (issue_token example_session example_auth))))
     (Some example_session) = False"
  using session_token_issue_validate_revoke [of example_session example_auth example_session
      "snd (issue_token example_session example_auth)"]
    session_token_issue_validate_revoke [of example_session example_auth example_session example_auth]
  by (simp add: issue_token_def example_auth_state)

text \<open>
  C9, as amended. \<^verbatim>\<open>validate_token\<close> answers \<^verbatim>\<open>False\<close> for \<^verbatim>\<open>None\<close> and, for every
  string, the empty one included, whether the string is in the stored set. The function
  assigns nothing, so the model has no state to return.
\<close>

theorem validate_token_membership:
  "validate_token s None = False \<and> validate_token s (Some t) = (t \<in> tokens s)"
  by (simp add: validate_token_def)

theorem validate_token_membership_witness:
  "validate_token example_auth None = False \<and>
   validate_token (snd (issue_token example_session example_auth)) (Some example_session) = True \<and>
   validate_token example_auth (Some []) = False"
  using validate_token_membership [of example_auth example_session]
    validate_token_membership [of "snd (issue_token example_session example_auth)" example_session]
    validate_token_membership [of example_auth "[]"]
  by (simp add: issue_token_def save_tokens_def example_auth_state)

text \<open>
  C9 as stated fails where the token file holds the empty string: the service built
  from it accepts the empty string.
\<close>

theorem validate_token_empty_string_accepted:
  "validate_token (new_AuthService (Some {[]})) (Some []) = True"
  by (simp add: validate_token_def new_AuthService_def)

text \<open>
  C3, as amended. A QR token that is in the dict of a reachable state and has not
  expired is exchanged for the fresh session token, which then validates; a second
  exchange of the same QR token fails because the token is no longer found.
\<close>

theorem qr_exchange_once_then_not_found:
  assumes "reachable s" and "map_of (qr_tokens s) t1 = Some q" and "\<not> now1 > expires_at q"
  shows "fst (exchange_qr_token t1 now1 fresh1 s) = Inr fresh1 \<and>
         validate_token (snd (exchange_qr_token t1 now1 fresh1 s)) (Some fresh1) \<and>
         fst (exchange_qr_token t1 now2 fresh2 (snd (exchange_qr_token t1 now1 fresh1 s))) = Inl NotFound"
proof -
  have unused: "\<not> used q"
    using outstanding_is_current [OF assms(1,2)] by simp
  have first: "exchange_qr_token t1 now1 fresh1 s =
      (Inr fresh1, save_tokens (s\<lparr>qr_tokens := AList.delete t1 (qr_tokens s),
                                  tokens := insert fresh1 (tokens s)\<rparr>))"
    using assms(2,3) unused
    by (simp add: exchange_qr_token_def issue_token_def Let_def AList.delete_update_same)
  have gone: "map_of (AList.delete t1 (qr_tokens s)) t1 = None"
    by (simp add: AList.delete_conv')
  show ?thesis
    unfolding first using gone
    by (simp add: exchange_qr_token_def validate_token_def save_tokens_def)
qed

theorem qr_exchange_once_then_not_found_witness:
  "reachable example_auth \<and>
   map_of (qr_tokens example_auth) example_qr =
     Some \<lparr>token = example_qr, expires_at = 60, used = False\<rparr> \<and>
   \<not> (30 :: real) > 60 \<and>
   fst (exchange_qr_token example_qr 30 example_session example_auth) = Inr example_session \<and>
   validate_token (snd (exchange_qr_token example_qr 30 example_session example_auth))
     (Some example_session) \<and>
   fst (exchange_qr_token example_qr 31 example_qr2
         (snd (exchange_qr_token example_qr 30 example_session example_auth))) = Inl NotFound"
proof -
  have m: "map_of (qr_tokens example_auth) example_qr =
             Some \<lparr>token = example_qr, expires_at = 60, used = False\<rparr>"
    by (simp add: example_auth_state)
  have n: "\<not> (30 :: real) > expires_at \<lparr>token = example_qr, expires_at = 60, used = False\<rparr>"
    by simp
  show ?thesis
    using qr_exchange_once_then_not_found [OF example_auth_reachable m n, of example_session 31 example_qr2]
      example_auth_reachable m
    by simp
qed

text \<open>
  C3 as stated fails: after a successful exchange the second exchange of the same QR
  token does not report \<open>AlreadyUsed\<close>; the entry was removed and the lookup fails.
\<close>

theorem qr_second_exchange_is_not_AlreadyUsed:
  "fst (exchange_qr_token example_qr 30 example_session example_auth) = Inr example_session \<and>
   fst (exchange_qr_token example_qr 31 example_qr2
         (snd (exchange_qr_token example_qr 30 example_session example_auth))) \<noteq> Inl AlreadyUsed \<and>
   fst (exchange_qr_token example_qr 31 example_qr2
         (snd (exchange_qr_token example_qr 30 example_session example_auth))) = Inl NotFound"
  by (simp add: exchange_qr_token_def example_auth_state issue_token_def save_tokens_def)

text \<open>
  C4. In a reachable state whose QR dict holds \<open>t1\<close> (issued, not exchanged, not swept),
  issuing another QR token \<open>t2\<close> drops \<open>t1\<close> from the dict, and exchanging \<open>t1\<close>
  afterwards fails because it is not found. The two random tokens differ.
\<close>

theorem qr_supersession:
  assumes "reachable s" and "map_of (qr_tokens s) t1 = Some q" and "t2 \<noteq> t1"
  shows "fst (issue_qr_token t2 now ttl s) = t2 \<and>
         map_of (qr_tokens (snd (issue_qr_token t2 now ttl s))) t1 = None \<and>
         fst (exchange_qr_token t1 now' fresh (snd (issue_qr_token t2 now ttl s))) = Inl NotFound"
proof -
  have cur: "current_qr_token s = Some t1" and ne: "t1 \<noteq> []"
    using outstanding_is_current [OF assms(1,2)] by simp_all
  have dropped: "map_of (qr_tokens (snd (issue_qr_token t2 now ttl s))) t1 = None"
    using cur ne assms(3)
    by (simp add: issue_qr_token_def Let_def AList.update_conv' AList.delete_conv')
  show ?thesis
    using dropped by (simp add: exchange_qr_token_def) (simp add: issue_qr_token_def Let_def)
qed

theorem qr_supersession_witness:
  "reachable example_auth \<and>
   map_of (qr_tokens example_auth) example_qr =
     Some \<lparr>token = example_qr, expires_at = 60, used = False\<rparr> \<and>
   example_qr2 \<noteq> example_qr \<and>
   fst (issue_qr_token example_qr2 10 None example_auth) = example_qr2 \<and>
   map_of (qr_tokens (snd (issue_qr_token example_qr2 10 None example_auth))) example_qr = None \<and>
   fst (exchange_qr_token example_qr 20 example_session
         (snd (issue_qr_token example_qr2 10 None example_auth))) = Inl NotFound"
proof -
  have m: "map_of (qr_tokens example_auth) example_qr =
             Some \<lparr>token = example_qr, expires_at = 60, used = False\<rparr>"
    by (simp add: example_auth_state)
  show ?thesis
    using qr_supersession [OF example_auth_reachable m example_qr_distinct,
        of 10 None 20 example_session]
      example_auth_reachable m example_qr_distinct
    by simp
qed

section \<open>Properties of the handler\<close>

subsection \<open>Registry lookups\<close>

lemma map_entry_twice:
  "AList.map_entry k f (AList.map_entry k g xs) = AList.map_entry k (\<lambda>i. f (g i)) xs"
  by (induction xs) auto

lemma map_of_map_entry_same:
  "map_of xs k = Some v \<Longrightarrow> map_of (AList.map_entry k f xs) k = Some (f v)"
  by (simp add: AList.map_of_map_entry)

lemma map_entry_cong_at:
  "map_of xs k = Some v \<Longrightarrow> f v = g v \<Longrightarrow> AList.map_entry k f xs = AList.map_entry k g xs"
  by (induction xs) (auto split: if_splits)

lemma py_get_dict: "py_get message k d = Inr v \<Longrightarrow> \<exists>kvs. message = JObj kvs"
  by (cases message) simp_all

subsection \<open>Messages on an unauthenticated connection\<close>

text \<open>
  C2, as amended. On a registered, unauthenticated connection whose socket accepts the
  send, a decoded message of type \<^verbatim>\<open>BUTTON_PRESSED\<close>, \<^verbatim>\<open>GET_BUTTONS\<close>, \<^verbatim>\<open>GET_PROFILES\<close>
  or \<^verbatim>\<open>SWITCH_PROFILE\<close> is answered with exactly the error \<^verbatim>\<open>Not authenticated\<close> and
  leaves the registry as it was; a \<^verbatim>\<open>PONG\<close> is not answered and sets \<open>last_pong\<close> of
  the entry to the clock, nothing else; a message of any other type but \<^verbatim>\<open>HELLO\<close>
  (a missing type included) is not answered and changes nothing.
\<close>

theorem unauthenticated_gating:
  assumes "map_of (connections h) w = Some info" and "\<not> is_authenticated info"
    and "\<not> send_fails e w" and "py_get message ''type'' JNull = Inr ty"
  shows
    "(ty \<in> {JStr (value_of BUTTON_PRESSED), JStr (value_of GET_BUTTONS),
             JStr (value_of GET_PROFILES), JStr (value_of SWITCH_PROFILE)} \<longrightarrow>
        handle_message e w (Some message) h =
          (Inr (), h\<lparr>sent := sent h @
             [(w, create_message ERROR (JObj [(''message'', JStr ''Not authenticated'')]))]\<rparr>)) \<and>
     (ty = JStr (value_of PONG) \<longrightarrow>
        handle_message e w (Some message) h =
          (Inr (), h\<lparr>connections :=
             AList.map_entry w (\<lambda>i. i\<lparr>last_pong := time_now e\<rparr>) (connections h)\<rparr>) \<and>
        map_of (connections (snd (handle_message e w (Some message) h))) w =
          Some (info\<lparr>last_pong := time_now e\<rparr>)) \<and>
     (ty \<notin> {JStr (value_of HELLO), JStr (value_of BUTTON_PRESSED), JStr (value_of GET_BUTTONS),
             JStr (value_of GET_PROFILES), JStr (value_of SWITCH_PROFILE), JStr (value_of PONG)} \<longrightarrow>
        handle_message e w (Some message) h = (Inr (), h))"
proof -
  obtain kvs where m: "message = JObj kvs"
    using py_get_dict [OF assms(4)] by blast
  have unauth: "\<not> handler_is_authenticated h w"
    using assms(1,2) by (simp add: handler_is_authenticated_def)
  have reply: "send_error e w ''Not authenticated'' h =
      (Inr (), h\<lparr>sent := sent h @
         [(w, create_message ERROR (JObj [(''message'', JStr ''Not authenticated'')]))]\<rparr>)"
    using assms(3) by (simp add: send_error_def send_json_def)
  have gated: "dispatch e w (Some message) h = send_error e w ''Not authenticated'' h"
    if "ty \<in> {JStr (value_of BUTTON_PRESSED), JStr (value_of GET_BUTTONS),
               JStr (value_of GET_PROFILES), JStr (value_of SWITCH_PROFILE)}"
    using that assms(4) unauth
    by (auto simp: m dispatch_def handle_button_pressed_def handle_get_buttons_def
          handle_get_profiles_def handle_switch_profile_def)
  have pong: "dispatch e w (Some message) h = (Inr (), handle_pong e w h)"
    if "ty = JStr (value_of PONG)"
    using that assms(4) by (auto simp: m dispatch_def)
  have other: "dispatch e w (Some message) h = (Inr (), h)"
    if "ty \<notin> {JStr (value_of HELLO), JStr (value_of BUTTON_PRESSED), JStr (value_of GET_BUTTONS),
               JStr (value_of GET_PROFILES), JStr (value_of SWITCH_PROFILE), JStr (value_of PONG)}"
    using that assms(4) by (auto simp: m dispatch_def)
  show ?thesis
    using assms(1)
    by (auto simp: handle_message_def gated reply pong other handle_pong_def map_of_map_entry_same
          simp del: value_of.simps)
qed


lemma example_fresh_lookup: "map_of (connections example_fresh) 3 = Some conn_fresh"
  by (simp add: example_fresh_def)

theorem unauthenticated_gating_witness:
  "map_of (connections example_fresh) 3 = Some conn_fresh \<and>
   \<not> is_authenticated conn_fresh \<and> \<not> send_fails example_env 3 \<and>
   handle_message example_env 3 (Some (JObj [(''type'', JStr ''GET_BUTTONS'')])) example_fresh =
     (Inr (), example_fresh\<lparr>sent :=
        [(3, create_message ERROR (JObj [(''message'', JStr ''Not authenticated'')]))]\<rparr>) \<and>
   handle_message example_env 3 (Some (JObj [(''type'', JStr ''PONG'')])) example_fresh =
     (Inr (), example_fresh\<lparr>connections := [(3, conn_fresh\<lparr>last_pong := 100\<rparr>)]\<rparr>) \<and>
   handle_message example_env 3 (Some (JObj [(''type'', JStr ''DANCE'')])) example_fresh =
     (Inr (), example_fresh)"
proof -
  have u: "\<not> is_authenticated conn_fresh"
    by (simp add: conn_fresh_def)
  have ok: "\<not> send_fails example_env 3"
    by (simp add: example_env_def)
  have g: "py_get (JObj [(''type'', JStr ''GET_BUTTONS'')]) ''type'' JNull = Inr (JStr ''GET_BUTTONS'')"
    and p: "py_get (JObj [(''type'', JStr ''PONG'')]) ''type'' JNull = Inr (JStr ''PONG'')"
    and d: "py_get (JObj [(''type'', JStr ''DANCE'')]) ''type'' JNull = Inr (JStr ''DANCE'')"
    by simp_all
  have t: "time_now example_env = 100"
    by (simp add: example_env_def)
  have c: "connections example_fresh = [(3, conn_fresh)]" and s: "sent example_fresh = []"
    by (simp_all add: example_fresh_def)
  show ?thesis
    using unauthenticated_gating [OF example_fresh_lookup u ok g]
      unauthenticated_gating [OF example_fresh_lookup u ok p]
      unauthenticated_gating [OF example_fresh_lookup u ok d]
      example_fresh_lookup u ok
    by (simp add: t c s)
qed

text \<open>
  C2 as stated fails for \<^verbatim>\<open>PONG\<close>: on the connection just accepted no error is sent,
  and \<open>last_pong\<close> of its entry moves from 0 to the clock's 100.
\<close>

theorem unauthenticated_pong_is_honoured:
  "map_of (connections example_fresh) 3 = Some conn_fresh \<and>
   is_authenticated conn_fresh = False \<and>
   last_pong conn_fresh = 0 \<and>
   sent (snd (handle_message example_env 3 (Some (JObj [(''type'', JStr ''PONG'')])) example_fresh)) = [] \<and>
   map_option last_pong
     (map_of (connections
        (snd (handle_message example_env 3 (Some (JObj [(''type'', JStr ''PONG'')])) example_fresh))) 3)
     = Some 100"
  by (simp add: handle_message_def dispatch_def handle_pong_def example_fresh_def conn_fresh_def
        example_env_def)

subsection \<open>The example store\<close>

lemma example_store_loads:
  "profile_get_by_id example_env (JStr ''B'') = Inr (Some profile_B)"
  "profile_get_by_id example_env (JStr ''C'') = Inr None"
  "profile_get_all example_env = Inr [profile_A, profile_B]"
  "buttons_payload example_env (JStr ''A'') = Inr (JObj [(''buttons'', JArr [button_to_dict button_play])])"
  "buttons_payload example_env (JStr ''B'') = Inr (JObj [(''buttons'', JArr [button_to_dict button_web])])"
  by (simp_all add: profile_get_by_id_def profile_get_all_def buttons_payload_def
        button_get_all_def example_env_def profile_row_A_def profile_row_B_def profile_of_row_def
        profile_A_def profile_B_def button_row_play_def button_row_web_def button_of_row_def
        ActionType_of_def action_types_def button_play_def button_web_def)

lemma example_bad_row_store:
  "profile_get_by_id example_env_bad_row (JStr ''A'') = Inr (Some profile_A)"
  "profile_get_all example_env_bad_row = Inr [profile_A, profile_B]"
  "buttons_payload example_env_bad_row (JStr ''A'') = Inl ValueError"
  by (simp_all add: profile_get_by_id_def profile_get_all_def buttons_payload_def
        button_get_all_def example_env_bad_row_def example_env_def profile_row_A_def
        profile_row_B_def profile_of_row_def profile_A_def profile_B_def button_row_play_def
        button_row_web_def button_of_row_def ActionType_of_def action_types_def)

lemma example_env_fields:
  "send_fails example_env = (\<lambda>w. False)" "time_now example_env = 100"
  "send_fails example_env_bad_row = (\<lambda>w. False)"
  "auth_service example_env_bad_row = auth_service example_env"
  "tokens (auth_service example_env) = {example_session}"
  by (simp_all add: example_env_def example_env_bad_row_def)

subsection \<open>The handshake\<close>

text \<open>
  C6, as amended. On a registered connection (an unauthenticated one in particular) whose
  socket accepts the sends, with a profile table that loads and, when a profile is
  bound, button rows of that profile that load, a \<^verbatim>\<open>HELLO\<close> whose token passes
  \<^verbatim>\<open>validate_token\<close> stores the client version, marks the entry authenticated and binds
  its active profile: the prior value when that is set, otherwise the id of the store's
  default profile (the first of the table), and the prior value still when the store
  has no profile. The connection is sent exactly \<^verbatim>\<open>WELCOME\<close>, then \<^verbatim>\<open>PROFILES_LIST\<close>,
  then \<^verbatim>\<open>BUTTONS_LIST\<close> of the bound profile (the empty list when none is bound).
\<close>

theorem handshake_with_valid_token:
  assumes reg: "map_of (connections h) w = Some info"
    and ty: "py_get message ''type'' JNull = Inr (JStr (value_of HELLO))"
    and pl: "py_get message ''payload'' (JObj []) = Inr payload"
    and ver: "py_get payload ''version'' (JStr ''unknown'') = Inr version"
    and tok: "py_get payload ''token'' JNull = Inr (JStr t)"
    and valid: "validate_token (auth_service e) (Some t)"
    and ok: "\<not> send_fails e w"
    and profiles: "profile_get_all e = Inr ps"
    and bound: "bound =
      (if truthy (active_profile_id info) then active_profile_id info
       else case ps of
              [] \<Rightarrow> active_profile_id info
            | default_profile # _ \<Rightarrow> JStr (profile_id_of default_profile))"
    and buttons: "(if truthy bound then buttons_payload e bound
                   else Inr (JObj [(''buttons'', JArr [])])) = Inr buttons"
  shows
    "handle_message e w (Some message) h =
       (Inr (),
        h\<lparr>connections :=
             AList.map_entry w
               (\<lambda>i. i\<lparr>client_version := version, is_authenticated := True,
                       active_profile_id := bound\<rparr>)
               (connections h),
           sent := sent h @
             [(w, create_message WELCOME (JObj [(''version'', JStr PROTOCOL_VERSION)])),
              (w, create_message PROFILES_LIST
                    (JObj [(''profiles'', JArr (map profile_to_dict ps))])),
              (w, create_message BUTTONS_LIST buttons)]\<rparr>) \<and>
     map_of (connections (snd (handle_message e w (Some message) h))) w =
       Some (info\<lparr>client_version := version, is_authenticated := True,
                  active_profile_id := bound\<rparr>)"
proof -
  obtain kvs where m: "message = JObj kvs"
    using py_get_dict [OF ty] by blast
  have d: "dispatch e w (Some message) h = handle_hello e w payload h"
    using ty pl by (simp add: m dispatch_def)
  let ?h' = "h\<lparr>connections :=
             AList.map_entry w
               (\<lambda>i. i\<lparr>client_version := version, is_authenticated := True,
                       active_profile_id := bound\<rparr>)
               (connections h),
           sent := sent h @
             [(w, create_message WELCOME (JObj [(''version'', JStr PROTOCOL_VERSION)])),
              (w, create_message PROFILES_LIST
                    (JObj [(''profiles'', JArr (map profile_to_dict ps))])),
              (w, create_message BUTTONS_LIST buttons)]\<rparr>"
  have replies: "hello_replies e w k =
      (Inr (), k\<lparr>sent := sent k @
             [(w, create_message WELCOME (JObj [(''version'', JStr PROTOCOL_VERSION)])),
              (w, create_message PROFILES_LIST
                    (JObj [(''profiles'', JArr (map profile_to_dict ps))])),
              (w, create_message BUTTONS_LIST buttons)]\<rparr>)"
    if "map_option active_profile_id (map_of (connections k) w) = Some bound" for k
    using that ok profiles buttons
    by (auto simp: hello_replies_def and_then_def send_json_def send_profiles_list_def
          profiles_payload_def send_buttons_list_def split: if_splits)
  have default: "get_default_profile e = Inr (case ps of [] \<Rightarrow> None | p # _ \<Rightarrow> Some p)"
    by (simp add: get_default_profile_def profiles)
  have steps: "handle_hello e w payload h =
      (Inr (),
       h\<lparr>connections :=
            AList.map_entry w
              (\<lambda>i. i\<lparr>client_version := version, is_authenticated := True,
                      active_profile_id :=
                        (if truthy (active_profile_id info) then active_profile_id i
                         else case ps of
                                [] \<Rightarrow> active_profile_id i
                              | default_profile # _ \<Rightarrow> JStr (profile_id_of default_profile))\<rparr>)
              (connections h),
          sent := sent h @
             [(w, create_message WELCOME (JObj [(''version'', JStr PROTOCOL_VERSION)])),
              (w, create_message PROFILES_LIST
                    (JObj [(''profiles'', JArr (map profile_to_dict ps))])),
              (w, create_message BUTTONS_LIST buttons)]\<rparr>)"
    using reg valid
    by (cases ps)
       (simp_all add: handle_hello_def ver tok Let_def AList.map_of_map_entry map_entry_twice
          default replies bound)
  have fold_entry: "AList.map_entry w
              (\<lambda>i. i\<lparr>client_version := version, is_authenticated := True,
                      active_profile_id :=
                        (if truthy (active_profile_id info) then active_profile_id i
                         else case ps of
                                [] \<Rightarrow> active_profile_id i
                              | default_profile # _ \<Rightarrow> JStr (profile_id_of default_profile))\<rparr>)
              (connections h) =
            AList.map_entry w
               (\<lambda>i. i\<lparr>client_version := version, is_authenticated := True,
                       active_profile_id := bound\<rparr>)
               (connections h)"
    by (rule map_entry_cong_at [OF reg]) (simp add: bound split: list.splits)
  have hello: "handle_hello e w payload h = (Inr (), ?h')"
    unfolding steps fold_entry by simp
  show ?thesis
    using reg by (simp add: handle_message_def d hello map_of_map_entry_same)
qed


theorem handshake_with_valid_token_witness:
  "map_of (connections example_fresh) 3 = Some conn_fresh \<and>
   \<not> is_authenticated conn_fresh \<and>
   validate_token (auth_service example_env) (Some example_session) \<and>
   \<not> send_fails example_env 3 \<and>
   profile_get_all example_env = Inr [profile_A, profile_B] \<and>
   buttons_payload example_env (JStr ''A'') =
     Inr (JObj [(''buttons'', JArr [button_to_dict button_play])]) \<and>
   handle_message example_env 3
     (Some (JObj [(''type'', JStr ''HELLO''),
                  (''payload'', JObj [(''version'', JStr ''1.0''), (''token'', JStr example_session)])]))
     example_fresh =
     (Inr (),
      example_fresh
        \<lparr>connections :=
           [(3, conn_fresh\<lparr>client_version := JStr ''1.0'', is_authenticated := True,
                           active_profile_id := JStr ''A''\<rparr>)],
         sent :=
           [(3, create_message WELCOME (JObj [(''version'', JStr ''1.0'')])),
            (3, create_message PROFILES_LIST
                  (JObj [(''profiles'', JArr [profile_to_dict profile_A, profile_to_dict profile_B])])),
            (3, create_message BUTTONS_LIST (JObj [(''buttons'', JArr [button_to_dict button_play])]))]\<rparr>)"
proof -
  let ?payload = "JObj [(''version'', JStr ''1.0''), (''token'', JStr example_session)]"
  let ?message = "JObj [(''type'', JStr ''HELLO''), (''payload'', ?payload)]"
  have ty: "py_get ?message ''type'' JNull = Inr (JStr (value_of HELLO))"
    and pl: "py_get ?message ''payload'' (JObj []) = Inr ?payload"
    and ver: "py_get ?payload ''version'' (JStr ''unknown'') = Inr (JStr ''1.0'')"
    and tok: "py_get ?payload ''token'' JNull = Inr (JStr example_session)"
    by simp_all
  have u: "\<not> is_authenticated conn_fresh"
    by (simp add: conn_fresh_def)
  have valid: "validate_token (auth_service example_env) (Some example_session)"
    by (simp add: validate_token_def example_env_fields)
  have ok: "\<not> send_fails example_env 3"
    by (simp add: example_env_fields)
  have bound: "JStr ''A'' =
      (if truthy (active_profile_id conn_fresh) then active_profile_id conn_fresh
       else case [profile_A, profile_B] of
              [] \<Rightarrow> active_profile_id conn_fresh
            | default_profile # _ \<Rightarrow> JStr (profile_id_of default_profile))"
    by (simp add: conn_fresh_def profile_A_def)
  have buttons: "(if truthy (JStr ''A'') then buttons_payload example_env (JStr ''A'')
                  else Inr (JObj [(''buttons'', JArr [])])) =
                 Inr (JObj [(''buttons'', JArr [button_to_dict button_play])])"
    by (simp add: example_store_loads)
  have c: "connections example_fresh = [(3, conn_fresh)]" and s: "sent example_fresh = []"
    by (simp_all add: example_fresh_def)
  show ?thesis
    using handshake_with_valid_token
            [OF example_fresh_lookup ty pl ver tok valid ok example_store_loads(3) bound buttons]
      example_fresh_lookup u valid ok example_store_loads(3) example_store_loads(4)
    by (simp add: c s PROTOCOL_VERSION_def)
qed

text \<open>
  C6 as stated fails on a store in which the button row of the bound profile holds an
  \<^verbatim>\<open>action_type\<close> that is no \<^verbatim>\<open>ActionType\<close> value: \<^verbatim>\<open>get_all\<close> raises, and the third
  reply is an \<^verbatim>\<open>ERROR\<close>, not a \<^verbatim>\<open>BUTTONS_LIST\<close>.
\<close>

theorem handshake_third_reply_is_error_on_bad_row:
  "map_of (connections example_fresh) 3 = Some conn_fresh \<and>
   is_authenticated conn_fresh = False \<and>
   validate_token (auth_service example_env_bad_row) (Some example_session) = True \<and>
   send_fails example_env_bad_row 3 = False \<and>
   received
     (snd (handle_message example_env_bad_row 3
        (Some (JObj [(''type'', JStr ''HELLO''),
                     (''payload'', JObj [(''version'', JStr ''1.0''), (''token'', JStr example_session)])]))
        example_fresh)) 3 =
     [create_message WELCOME (JObj [(''version'', JStr ''1.0'')]),
      create_message PROFILES_LIST
        (JObj [(''profiles'', JArr [profile_to_dict profile_A, profile_to_dict profile_B])]),
      create_message ERROR (JObj [(''message'', JStr (str_of ValueError))])]"
proof -
  have d: "get_default_profile example_env_bad_row = Inr (Some profile_A)"
    by (simp add: get_default_profile_def example_bad_row_store)
  show ?thesis
    by (simp add: handle_message_def dispatch_def handle_hello_def hello_replies_def
          send_profiles_list_def profiles_payload_def send_buttons_list_def send_error_def
          send_json_def and_then_def received_def Let_def d example_bad_row_store
          example_env_fields validate_token_def example_fresh_def conn_fresh_def
          profile_A_def PROTOCOL_VERSION_def)
qed

subsection \<open>The buttons broadcast\<close>

text \<open>
  C1, on the code. On a store whose buttons load, with two authenticated connections on
  the profiles \<open>A\<close> and \<open>B\<close>, \<^verbatim>\<open>broadcast_buttons_update("A")\<close> sends the buttons of
  \<open>A\<close> to both: the connection on \<open>B\<close> receives them too, since
  \<^verbatim>\<open>profile_id or info.active_profile_id\<close> never compares the two.
\<close>

theorem broadcast_buttons_update_reaches_other_profile:
  "map_of (connections example_two) 2 = Some conn_on_B \<and>
   is_authenticated conn_on_B = True \<and>
   active_profile_id conn_on_B = JStr ''B'' \<and>
   buttons_payload example_env (JStr ''A'') =
     Inr (JObj [(''buttons'', JArr [button_to_dict button_play])]) \<and>
   received (broadcast_buttons_update example_env (Some ''A'') example_two) 2 =
     [create_message BUTTONS_LIST (JObj [(''buttons'', JArr [button_to_dict button_play])])] \<and>
   received (broadcast_buttons_update example_env (Some ''A'') example_two) 1 =
     [create_message BUTTONS_LIST (JObj [(''buttons'', JArr [button_to_dict button_play])])]"
  by (simp add: broadcast_buttons_update_def example_two_def conn_on_A_def conn_on_B_def
        received_def send_json_def example_store_loads example_env_fields py_or_def)

lemma buttons_update_loop_Cons:
  "buttons_update_loop e pid ((x, info) # xs) h =
     buttons_update_loop e pid xs
       (if is_authenticated info \<and> truthy (py_or (json_of_str pid) (active_profile_id info))
           \<and> \<not> send_fails e x
        then (case buttons_payload e (py_or (json_of_str pid) (active_profile_id info)) of
                Inl u \<Rightarrow> h
              | Inr payload \<Rightarrow> h\<lparr>sent := sent h @ [(x, create_message BUTTONS_LIST payload)]\<rparr>)
        else h)"
  by (simp add: Let_def send_json_def split: sum.splits)

lemma received_buttons_update_loop:
  "distinct (map fst xs) \<Longrightarrow>
   received (buttons_update_loop e pid xs h) w =
     received h w @
     (case map_of xs w of
        None \<Rightarrow> []
      | Some info \<Rightarrow>
          if is_authenticated info \<and> truthy (py_or (json_of_str pid) (active_profile_id info))
             \<and> \<not> send_fails e w
          then (case buttons_payload e (py_or (json_of_str pid) (active_profile_id info)) of
                  Inl u \<Rightarrow> []
                | Inr payload \<Rightarrow> [create_message BUTTONS_LIST payload])
          else [])"
proof (induction xs arbitrary: h)
  case Nil
  show ?case by simp
next
  case (Cons a xs)
  obtain x info where a: "a = (x, info)" by (cases a)
  have d: "distinct (map fst xs)" and fresh: "map_of xs x = None"
    using Cons.prems by (auto simp: a map_of_eq_None_iff)
  show ?case
  proof (cases "x = w")
    case True
    have "map_of xs w = None"
      using fresh True by simp
    then show ?thesis
      unfolding a buttons_update_loop_Cons Cons.IH [OF d]
      by (auto simp: True received_def split: option.splits sum.splits)
  next
    case False
    then show ?thesis
      unfolding a buttons_update_loop_Cons Cons.IH [OF d]
      by (auto simp: received_def split: option.splits sum.splits)
  qed
qed

text \<open>
  In general: given a non-empty profile id whose button rows load, every authenticated
  connection whose socket accepts the send receives the buttons of that profile,
  whatever its own active profile is.
\<close>

lemma broadcast_buttons_update_given_profile:
  assumes "distinct (map fst (connections h))" and "profile_id \<noteq> []"
    and "buttons_payload e (JStr profile_id) = Inr payload"
    and "map_of (connections h) w = Some info"
  shows "received (broadcast_buttons_update e (Some profile_id) h) w =
           received h w @
           (if is_authenticated info \<and> \<not> send_fails e w
            then [create_message BUTTONS_LIST payload] else [])"
proof -
  have "connections h \<noteq> []"
    using assms(4) by auto
  then show ?thesis
    using assms(2,3,4)
    by (simp add: broadcast_buttons_update_def received_buttons_update_loop [OF assms(1)] py_or_def)
qed

subsection \<open>The global profile switch\<close>

text \<open>
  C10. For a profile id the profile store does not know, \<^verbatim>\<open>broadcast_profile_switch\<close>
  returns with the handler as it was: no entry of the registry changes and nothing is
  sent or closed.
\<close>

theorem broadcast_profile_switch_unknown_profile:
  "profile_get_by_id e (JStr profile_id) = Inr None \<Longrightarrow>
   broadcast_profile_switch e profile_id h = (Inr (), h)"
  by (simp add: broadcast_profile_switch_def)

theorem broadcast_profile_switch_unknown_profile_witness:
  "profile_get_by_id example_env (JStr ''C'') = Inr None \<and>
   broadcast_profile_switch example_env ''C'' example_three = (Inr (), example_three)"
  using broadcast_profile_switch_unknown_profile [OF example_store_loads(2), of example_three]
    example_store_loads(2)
  by simp

lemma profile_switch_loop_Cons:
  "profile_switch_loop e p ((x, info) # xs) h =
     profile_switch_loop e p xs
       (if is_authenticated info
        then (if send_fails e x
              then h\<lparr>connections :=
                       AList.map_entry x (\<lambda>i. i\<lparr>active_profile_id := JStr p\<rparr>) (connections h)\<rparr>
              else h\<lparr>connections :=
                       AList.map_entry x (\<lambda>i. i\<lparr>active_profile_id := JStr p\<rparr>) (connections h),
                     sent := sent h @
                       (x, create_message PROFILE_SWITCHED (JObj [(''profileId'', JStr p)])) #
                       (case buttons_payload e (JStr p) of
                          Inl u \<Rightarrow> []
                        | Inr payload \<Rightarrow> [(x, create_message BUTTONS_LIST payload)])\<rparr>)
        else h)"
  by (simp add: Let_def and_then_def send_json_def split: sum.splits)

lemma map_of_profile_switch_loop:
  "distinct (map fst xs) \<Longrightarrow>
   map_of (connections (profile_switch_loop e p xs h)) w =
     (case map_of xs w of
        None \<Rightarrow> map_of (connections h) w
      | Some info \<Rightarrow>
          if is_authenticated info
          then map_option (\<lambda>i. i\<lparr>active_profile_id := JStr p\<rparr>) (map_of (connections h) w)
          else map_of (connections h) w)"
proof (induction xs arbitrary: h)
  case Nil
  show ?case by simp
next
  case (Cons a xs)
  obtain x info where a: "a = (x, info)" by (cases a)
  have d: "distinct (map fst xs)" and fresh: "map_of xs x = None"
    using Cons.prems by (auto simp: a map_of_eq_None_iff)
  show ?case
  proof (cases "x = w")
    case True
    have "map_of xs w = None"
      using fresh True by simp
    then show ?thesis
      unfolding a profile_switch_loop_Cons Cons.IH [OF d]
      by (cases "map_of (connections h) w") (simp_all add: True AList.map_of_map_entry)
  next
    case False
    then show ?thesis
      unfolding a profile_switch_loop_Cons Cons.IH [OF d]
      by (simp add: AList.map_of_map_entry split: option.splits)
  qed
qed

lemma received_profile_switch_loop:
  "distinct (map fst xs) \<Longrightarrow>
   received (profile_switch_loop e p xs h) w =
     received h w @
     (case map_of xs w of
        None \<Rightarrow> []
      | Some info \<Rightarrow>
          if is_authenticated info \<and> \<not> send_fails e w
          then create_message PROFILE_SWITCHED (JObj [(''profileId'', JStr p)]) #
               (case buttons_payload e (JStr p) of
                  Inl u \<Rightarrow> []
                | Inr payload \<Rightarrow> [create_message BUTTONS_LIST payload])
          else [])"
proof (induction xs arbitrary: h)
  case Nil
  show ?case by simp
next
  case (Cons a xs)
  obtain x info where a: "a = (x, info)" by (cases a)
  have d: "distinct (map fst xs)" and fresh: "map_of xs x = None"
    using Cons.prems by (auto simp: a map_of_eq_None_iff)
  show ?case
  proof (cases "x = w")
    case True
    have "map_of xs w = None"
      using fresh True by simp
    then show ?thesis
      unfolding a profile_switch_loop_Cons Cons.IH [OF d]
      by (simp add: True received_def split: option.splits sum.splits)
  next
    case False
    then show ?thesis
      unfolding a profile_switch_loop_Cons Cons.IH [OF d]
      by (simp add: received_def split: option.splits sum.splits)
  qed
qed

text \<open>
  C5, as amended. For a profile id the store knows and a registry in which each socket
  has one entry, \<^verbatim>\<open>broadcast_profile_switch\<close> returns and sets the active profile of
  every authenticated connection to that id, whatever it was before. Such a connection
  whose socket accepts the sends receives \<^verbatim>\<open>PROFILE_SWITCHED\<close> with the id, followed by
  the \<^verbatim>\<open>BUTTONS_LIST\<close> of that profile when its button rows load and by nothing when
  they do not. An unauthenticated connection keeps its entry and receives nothing.
\<close>

theorem broadcast_profile_switch_known_profile:
  assumes "distinct (map fst (connections h))"
    and "profile_get_by_id e (JStr profile_id) = Inr (Some profile)"
    and "map_of (connections h) w = Some info"
  shows
    "fst (broadcast_profile_switch e profile_id h) = Inr () \<and>
     (is_authenticated info \<longrightarrow>
        map_of (connections (snd (broadcast_profile_switch e profile_id h))) w =
          Some (info\<lparr>active_profile_id := JStr profile_id\<rparr>) \<and>
        (\<not> send_fails e w \<longrightarrow>
           received (snd (broadcast_profile_switch e profile_id h)) w =
             received h w @
             create_message PROFILE_SWITCHED (JObj [(''profileId'', JStr profile_id)]) #
             (case buttons_payload e (JStr profile_id) of
                Inl x \<Rightarrow> []
              | Inr payload \<Rightarrow> [create_message BUTTONS_LIST payload]))) \<and>
     (\<not> is_authenticated info \<longrightarrow>
        map_of (connections (snd (broadcast_profile_switch e profile_id h))) w = Some info \<and>
        received (snd (broadcast_profile_switch e profile_id h)) w = received h w)"
proof -
  have ne: "connections h \<noteq> []"
    using assms(3) by auto
  have b: "broadcast_profile_switch e profile_id h =
             (Inr (), profile_switch_loop e profile_id (connections h) h)"
    using ne assms(2) by (simp add: broadcast_profile_switch_def)
  show ?thesis
    unfolding b
    by (simp add: map_of_profile_switch_loop [OF assms(1)]
          received_profile_switch_loop [OF assms(1)] assms(3))
qed

lemma example_three_distinct: "distinct (map fst (connections example_three))"
  by (simp add: example_three_def)

theorem broadcast_profile_switch_known_profile_witness:
  "distinct (map fst (connections example_three)) \<and>
   profile_get_by_id example_env (JStr ''B'') = Inr (Some profile_B) \<and>
   profile_get_by_id example_env_bad_row (JStr ''A'') = Inr (Some profile_A) \<and>
   map_of (connections example_three) 1 = Some conn_on_A \<and> is_authenticated conn_on_A \<and>
   map_of (connections example_three) 3 = Some conn_fresh \<and> \<not> is_authenticated conn_fresh \<and>
   \<not> send_fails example_env 1 \<and> \<not> send_fails example_env_bad_row 1 \<and>
   fst (broadcast_profile_switch example_env ''B'' example_three) = Inr () \<and>
   map_of (connections (snd (broadcast_profile_switch example_env ''B'' example_three))) 1 =
     Some (conn_on_A\<lparr>active_profile_id := JStr ''B''\<rparr>) \<and>
   received (snd (broadcast_profile_switch example_env ''B'' example_three)) 1 =
     [create_message PROFILE_SWITCHED (JObj [(''profileId'', JStr ''B'')]),
      create_message BUTTONS_LIST (JObj [(''buttons'', JArr [button_to_dict button_web])])] \<and>
   map_of (connections (snd (broadcast_profile_switch example_env ''B'' example_three))) 3 =
     Some conn_fresh \<and>
   received (snd (broadcast_profile_switch example_env ''B'' example_three)) 3 = [] \<and>
   received (snd (broadcast_profile_switch example_env_bad_row ''A'' example_three)) 1 =
     [create_message PROFILE_SWITCHED (JObj [(''profileId'', JStr ''A'')])]"
proof -
  have c1: "map_of (connections example_three) 1 = Some conn_on_A"
    and c3: "map_of (connections example_three) 3 = Some conn_fresh"
    by (simp_all add: example_three_def)
  have a1: "is_authenticated conn_on_A" and a3: "\<not> is_authenticated conn_fresh"
    by (simp_all add: conn_on_A_def conn_fresh_def)
  have ok: "\<not> send_fails example_env 1" "\<not> send_fails example_env_bad_row 1"
    by (simp_all add: example_env_fields)
  have r: "received example_three 1 = []" "received example_three 3 = []"
    by (simp_all add: received_def example_three_def)
  show ?thesis
    using broadcast_profile_switch_known_profile
            [OF example_three_distinct example_store_loads(1) c1]
      broadcast_profile_switch_known_profile
            [OF example_three_distinct example_store_loads(1) c3]
      broadcast_profile_switch_known_profile
            [OF example_three_distinct example_bad_row_store(1) c1]
      example_three_distinct example_store_loads(1) example_bad_row_store(1) c1 c3 a1 a3 ok r
    by (simp add: example_store_loads example_bad_row_store)
qed

text \<open>
  C5 as stated fails for a profile id the store does not know: the authenticated
  connection on \<open>A\<close> stays on \<open>A\<close> and nothing is sent.
\<close>

theorem broadcast_profile_switch_ignores_unknown_profile:
  "map_of (connections example_two) 1 = Some conn_on_A \<and>
   is_authenticated conn_on_A = True \<and>
   map_option active_profile_id
     (map_of (connections (snd (broadcast_profile_switch example_env ''C'' example_two))) 1) =
     Some (JStr ''A'') \<and>
   sent (snd (broadcast_profile_switch example_env ''C'' example_two)) = []"
  by (simp add: broadcast_profile_switch_def example_store_loads example_two_def conn_on_A_def)

subsection \<open>Authentication is never withdrawn\<close>

lemma keeps_refl [simp]: "keeps w cs cs"
  by (simp add: keeps_def split: option.splits)

lemma keeps_trans: "keeps w a b \<Longrightarrow> keeps w b c \<Longrightarrow> keeps w a c"
  by (auto simp: keeps_def split: option.splits)

lemma keeps_delete [simp]: "keeps w cs (AList.delete x cs)"
  by (simp add: keeps_def AList.delete_conv' split: option.splits)

lemma keeps_map_entry:
  "(\<And>i. is_authenticated i \<Longrightarrow> is_authenticated (f i)) \<Longrightarrow> keeps w cs (AList.map_entry x f cs)"
  by (auto simp: keeps_def AList.map_of_map_entry split: option.splits)

lemma keeps_update: "x \<noteq> w \<Longrightarrow> keeps w cs (AList.update x c cs)"
  by (simp add: keeps_def AList.update_conv' split: option.splits)

lemma connections_send_json [simp]: "connections (snd (send_json e w m h)) = connections h"
  by (simp add: send_json_def)

lemma connections_send_error [simp]: "connections (snd (send_error e w m h)) = connections h"
  by (simp add: send_error_def)

lemma connections_send_buttons_list [simp]:
  "connections (snd (send_buttons_list e w h)) = connections h"
  by (simp add: send_buttons_list_def split: option.splits sum.splits)

lemma connections_send_profiles_list [simp]:
  "connections (snd (send_profiles_list e w h)) = connections h"
  by (simp add: send_profiles_list_def split: sum.splits)

lemma connections_and_then:
  assumes "\<And>k. connections (snd (f k)) = connections k"
  shows "connections (snd (and_then r f)) = connections (snd r)"
  using assms by (cases r) (auto simp: and_then_def split: sum.splits)

lemma connections_hello_replies [simp]:
  "connections (snd (hello_replies e w h)) = connections h"
  by (simp add: hello_replies_def connections_and_then)

lemma keeps_handle_hello: "keeps w (connections h) (connections (snd (handle_hello e x payload h)))"
proof -
  have a: "\<And>cs v. keeps w cs (AList.map_entry x (\<lambda>i. i\<lparr>client_version := v\<rparr>) cs)"
    by (rule keeps_map_entry) simp
  have b: "\<And>cs. keeps w cs (AList.map_entry x (\<lambda>i. i\<lparr>is_authenticated := True\<rparr>) cs)"
    by (rule keeps_map_entry) simp
  have c: "\<And>cs v. keeps w cs (AList.map_entry x (\<lambda>i. i\<lparr>active_profile_id := v\<rparr>) cs)"
    by (rule keeps_map_entry) simp
  show ?thesis
    unfolding handle_hello_def
    by (auto simp: Let_def a b c
          intro: keeps_trans [OF a b] keeps_trans [OF keeps_trans [OF a b] c] keeps_trans [OF b c]
          split: sum.splits option.splits bool.splits)
qed

lemma keeps_handle_pong: "keeps w (connections h) (connections (handle_pong e x h))"
  by (simp add: handle_pong_def keeps_map_entry)

lemma connections_handle_button_pressed [simp]:
  "connections (snd (handle_button_pressed e x payload h)) = connections h"
  by (simp add: handle_button_pressed_def split: sum.splits option.splits)

lemma connections_handle_get_buttons [simp]:
  "connections (snd (handle_get_buttons e x h)) = connections h"
  by (simp add: handle_get_buttons_def)

lemma connections_handle_get_profiles [simp]:
  "connections (snd (handle_get_profiles e x h)) = connections h"
  by (simp add: handle_get_profiles_def)

lemma keeps_handle_switch_profile:
  "keeps w (connections h) (connections (snd (handle_switch_profile e x payload h)))"
  by (simp add: handle_switch_profile_def Let_def connections_and_then keeps_map_entry
        split: sum.splits option.splits)

lemma keeps_dispatch: "keeps w (connections h) (connections (snd (dispatch e x data h)))"
  by (simp add: dispatch_def keeps_handle_hello keeps_handle_pong keeps_handle_switch_profile
        split: option.splits sum.splits)

lemma keeps_handle_message:
  "keeps w (connections h) (connections (snd (handle_message e x data h)))"
proof -
  obtain r h' where d: "dispatch e x data h = (r, h')"
    by (cases "dispatch e x data h")
  have "keeps w (connections h) (connections h')"
    using keeps_dispatch [of w h e x data] by (simp add: d)
  then show ?thesis
    by (simp add: handle_message_def d split: sum.splits exn.splits)
qed

lemma keeps_close_connection: "keeps w (connections h) (connections (close_connection x reason h))"
  by (simp add: close_connection_def)

lemma keeps_disconnect: "keeps w (connections h) (connections (disconnect x h))"
  by (simp add: disconnect_def)

lemma keeps_connect: "x \<noteq> w \<Longrightarrow> keeps w (connections h) (connections (connect e x h))"
  by (simp add: connect_def keeps_update)

lemma connections_buttons_update_loop [simp]:
  "connections (buttons_update_loop e p xs h) = connections h"
  by (induction xs arbitrary: h) (auto simp: Let_def split: sum.splits)

lemma connections_send_to_authenticated [simp]:
  "connections (send_to_authenticated e m xs h) = connections h"
  by (induction xs arbitrary: h) auto

lemma connections_profile_switch_sends [simp]:
  "connections
     (snd (and_then (send_json e x m h1)
             (\<lambda>h2. case buttons_payload e p of
                      Inl u \<Rightarrow> (Inl u, h2)
                    | Inr payload \<Rightarrow> send_json e x (create_message BUTTONS_LIST payload) h2))) =
   connections h1"
  by (simp add: and_then_def send_json_def split: sum.splits)

lemma keeps_profile_switch_loop:
  "keeps w (connections h) (connections (profile_switch_loop e p xs h))"
proof (induction xs arbitrary: h)
  case Nil
  show ?case by simp
next
  case (Cons a xs)
  obtain x info where a: "a = (x, info)" by (cases a)
  show ?case
  proof (cases "is_authenticated info")
    case True
    let ?h1 = "h\<lparr>connections :=
                  AList.map_entry x (\<lambda>i. i\<lparr>active_profile_id := JStr p\<rparr>) (connections h)\<rparr>"
    let ?h2 = "snd (and_then
                      (send_json e x
                         (create_message PROFILE_SWITCHED (JObj [(''profileId'', JStr p)])) ?h1)
                      (\<lambda>h2. case buttons_payload e (JStr p) of
                               Inl u \<Rightarrow> (Inl u, h2)
                             | Inr payload \<Rightarrow>
                                 send_json e x (create_message BUTTONS_LIST payload) h2))"
    have "keeps w (connections h) (connections ?h2)"
      by (simp add: keeps_map_entry)
    moreover have "keeps w (connections ?h2) (connections (profile_switch_loop e p xs ?h2))"
      by (rule Cons.IH)
    ultimately have "keeps w (connections h) (connections (profile_switch_loop e p xs ?h2))"
      by (rule keeps_trans)
    then show ?thesis
      using True by (simp add: a Let_def)
  next
    case False
    then show ?thesis using Cons.IH [of h] by (simp add: a)
  qed
qed

lemma keeps_ping_loop: "keeps w (connections h) (connections (ping_loop e xs h))"
proof (induction xs arbitrary: h)
  case Nil
  show ?case by simp
next
  case (Cons x xs)
  show ?case
  proof (cases "send_fails e x")
    case True
    have "keeps w (connections h) (connections (close_connection x ''Send failed'' h))"
      by (rule keeps_close_connection)
    then show ?thesis
      using True Cons.IH [of "close_connection x ''Send failed'' h"]
      by (auto simp: send_json_def intro: keeps_trans)
  next
    case False
    then show ?thesis
      using Cons.IH [of "h\<lparr>sent := sent h @ [(x, create_message PING JNull)]\<rparr>"]
      by (simp add: send_json_def)
  qed
qed

lemma keeps_stale_loop: "keeps w (connections h) (connections (stale_loop now xs h))"
proof (induction now xs h rule: stale_loop.induct)
  case (1 now h)
  show ?case by simp
next
  case (2 now x info rest h)
  show ?case
  proof (cases "now - last_pong info > PONG_TIMEOUT_SECONDS")
    case True
    then show ?thesis
      using "2.IH"(1) keeps_close_connection [of w h x "''Heartbeat timeout''"]
      by (auto intro: keeps_trans)
  next
    case False
    then show ?thesis using "2.IH"(2) by simp
  qed
qed

lemma keeps_apply_operation:
  "operation \<noteq> Connect w \<Longrightarrow>
   keeps w (connections h) (connections (apply_operation e operation h))"
  by (cases operation)
     (auto simp: keeps_connect keeps_disconnect keeps_handle_message broadcast_buttons_update_def
        broadcast_profiles_update_def broadcast_profile_switch_def keeps_profile_switch_loop
        broadcast_stats_def send_ping_to_all_def keeps_ping_loop cleanup_stale_connections_def
        keeps_stale_loop split: option.splits sum.splits)

lemma keeps_run:
  "\<forall>x \<in> set ops. snd x \<noteq> Connect w \<Longrightarrow> keeps w (connections h) (connections (run ops h))"
proof (induction ops arbitrary: h)
  case Nil
  show ?case by simp
next
  case (Cons a ops)
  obtain e operation where a: "a = (e, operation)" by (cases a)
  have "keeps w (connections h) (connections (apply_operation e operation h))"
    using Cons.prems by (simp add: a keeps_apply_operation)
  moreover have "keeps w (connections (apply_operation e operation h))
                   (connections (run ops (apply_operation e operation h)))"
    using Cons.IH Cons.prems by simp
  ultimately show ?case
    by (simp add: a keeps_trans)
qed

text \<open>
  C7. Along any run of handler operations (messages on any socket, broadcasts, pings,
  the stale sweep, disconnects, and accepts of other sockets) an authenticated
  connection that is still registered at the end is still authenticated. Only
  \<^verbatim>\<open>connect\<close> creates an entry, so being registered at the end means never having
  been removed; \<^verbatim>\<open>connect\<close> on the socket itself is left out, as the endpoint calls it
  once, on a socket it has just accepted.
\<close>

theorem authentication_is_never_withdrawn:
  assumes "handler_is_authenticated h w"
    and "Connect w \<notin> snd ` set ops"
    and "map_of (connections (run ops h)) w \<noteq> None"
  shows "handler_is_authenticated (run ops h) w"
proof -
  have "\<forall>x \<in> set ops. snd x \<noteq> Connect w"
    using assms(2) by force
  from keeps_run [OF this, of h] assms(1,3) show ?thesis
    by (auto simp: keeps_def handler_is_authenticated_def split: option.splits)
qed

lemma example_run_result:
  "connections (run example_run example_two) =
     [(1, conn_on_A\<lparr>active_profile_id := JStr ''B''\<rparr>)]"
proof -
  show ?thesis
    by (simp add: example_run_def example_two_def handle_message_def dispatch_def
          handle_get_buttons_def handler_is_authenticated_def send_buttons_list_def send_json_def
          broadcast_profile_switch_def example_store_loads example_env_fields disconnect_def send_ping_to_all_def
          cleanup_stale_connections_def PONG_TIMEOUT_SECONDS_def close_connection_def Let_def
          and_then_def conn_on_A_def conn_on_B_def)
qed

theorem authentication_is_never_withdrawn_witness:
  "handler_is_authenticated example_two 1 \<and>
   Connect 1 \<notin> snd ` set example_run \<and>
   map_of (connections (run example_run example_two)) 1 \<noteq> None \<and>
   handler_is_authenticated (run example_run example_two) 1"
proof -
  have a: "handler_is_authenticated example_two 1"
    by (simp add: handler_is_authenticated_def example_two_def conn_on_A_def)
  have b: "Connect 1 \<notin> snd ` set example_run"
    by (simp add: example_run_def)
  have c: "map_of (connections (run example_run example_two)) 1 \<noteq> None"
    by (simp add: example_run_result)
  show ?thesis
    using authentication_is_never_withdrawn [OF a b c] a b c by simp
qed

end
